theory Spec2Isabelle
  imports Main "HOL-Library.Sublist" "HOL-Library.Word"
begin

section \<open>Python values used by pytest\_cassandra.py\<close>

text \<open>
  A Python \<open>str\<close> is a \<open>string\<close>; non-ASCII text is held as its UTF-8 bytes.
  A Python \<open>bytes\<close> object is a list of 8-bit words. Python integers are \<open>int\<close>.
  The semantics followed is that of Python 3.
\<close>

type_synonym bytes = "8 word list"

definition nl :: string where
  "nl = [CHR 0x0A]"

definition tab :: string where
  "tab = [CHR 0x09]"

text \<open>\<open>str(n)\<close> for a non-negative integer: the decimal digits, most significant first.\<close>

definition digit_char :: "nat \<Rightarrow> char" where
  "digit_char d = char_of (48 + d)"

fun str_nat :: "nat \<Rightarrow> string" where
  "str_nat n = (if n < 10 then [digit_char n] else str_nat (n div 10) @ [digit_char (n mod 10)])"

declare str_nat.simps [simp del]

text \<open>\<open>str(i)\<close>, which is also what \<open>'{}'.format(i)\<close> prints for an integer.\<close>

definition str_int :: "int \<Rightarrow> string" where
  "str_int i = (if i < 0 then CHR ''-'' # str_nat (nat (- i)) else str_nat (nat i))"

text \<open>Reading a decimal numeral back; the inverse used to state what \<open>str_int\<close> prints.\<close>

definition digit_val :: "char \<Rightarrow> nat" where
  "digit_val ch = of_char ch - 48"

definition is_digit :: "char \<Rightarrow> bool" where
  "is_digit ch = (48 \<le> (of_char ch :: nat) \<and> (of_char ch :: nat) \<le> 57)"

definition dec_value :: "string \<Rightarrow> nat" where
  "dec_value ds = foldl (\<lambda>acc ch. 10 * acc + digit_val ch) 0 ds"

text \<open>
  \<open>ds\<close> is the decimal representation of \<open>n\<close>: digits only, at least one, no leading
  zero on a numeral of several digits, and of value \<open>n\<close>.
\<close>

definition is_decimal_of :: "string \<Rightarrow> nat \<Rightarrow> bool" where
  "is_decimal_of ds n =
     (ds \<noteq> [] \<and> list_all is_digit ds \<and> (1 < length ds \<longrightarrow> hd ds \<noteq> CHR ''0'') \<and> dec_value ds = n)"

text \<open>\<open>s.startswith(p)\<close>.\<close>

fun startswith :: "string \<Rightarrow> string \<Rightarrow> bool" where
  "startswith s [] = True"
| "startswith [] (p # ps) = False"
| "startswith (ch # s) (p # ps) = (ch = p \<and> startswith s ps)"

text \<open>
  \<open>s.find(sub)\<close>: the lowest index at which \<open>sub\<close> occurs in \<open>s\<close>, or \<open>-1\<close>.
  \<open>find_from s sub i\<close> scans the suffix \<open>s\<close> that starts at index \<open>i\<close>.
\<close>

fun find_from :: "string \<Rightarrow> string \<Rightarrow> int \<Rightarrow> int" where
  "find_from [] sub i = (if sub = [] then i else - 1)"
| "find_from (ch # s) sub i = (if startswith (ch # s) sub then i else find_from s sub (i + 1))"

definition str_find :: "string \<Rightarrow> string \<Rightarrow> int" where
  "str_find s sub = find_from s sub 0"

text \<open>\<open>sep.join(xs)\<close>.\<close>

fun join :: "string \<Rightarrow> string list \<Rightarrow> string" where
  "join sep [] = []"
| "join sep [x] = x"
| "join sep (x # y # ys) = x @ sep @ join sep (y # ys)"

text \<open>\<open>range(n)\<close>: empty when \<open>n \<le> 0\<close>.\<close>

definition range_py :: "int \<Rightarrow> int list" where
  "range_py n = map int [0 ..< nat n]"

text \<open>
  \<open>b.decode()\<close>: strict UTF-8. The well-formed byte sequences are those of the Unicode
  standard (no overlong forms, no surrogates, nothing above U+10FFFF); any other input
  raises \<open>UnicodeDecodeError\<close>.
\<close>

definition cont :: "8 word \<Rightarrow> bool" where
  "cont b = (0x80 \<le> b \<and> b \<le> 0xBF)"

fun utf8_valid :: "bytes \<Rightarrow> bool" where
  "utf8_valid [] = True"
| "utf8_valid [b0] = (b0 \<le> 0x7F)"
| "utf8_valid [b0, b1] =
     (if b0 \<le> 0x7F then utf8_valid [b1]
      else 0xC2 \<le> b0 \<and> b0 \<le> 0xDF \<and> cont b1)"
| "utf8_valid [b0, b1, b2] =
     (if b0 \<le> 0x7F then utf8_valid [b1, b2]
      else if 0xC2 \<le> b0 \<and> b0 \<le> 0xDF then cont b1 \<and> utf8_valid [b2]
      else if b0 = 0xE0 then 0xA0 \<le> b1 \<and> b1 \<le> 0xBF \<and> cont b2
      else if b0 = 0xED then 0x80 \<le> b1 \<and> b1 \<le> 0x9F \<and> cont b2
      else 0xE1 \<le> b0 \<and> b0 \<le> 0xEF \<and> cont b1 \<and> cont b2)"
| "utf8_valid (b0 # b1 # b2 # b3 # bs) =
     (if b0 \<le> 0x7F then utf8_valid (b1 # b2 # b3 # bs)
      else if 0xC2 \<le> b0 \<and> b0 \<le> 0xDF then cont b1 \<and> utf8_valid (b2 # b3 # bs)
      else if b0 = 0xE0 then 0xA0 \<le> b1 \<and> b1 \<le> 0xBF \<and> cont b2 \<and> utf8_valid (b3 # bs)
      else if b0 = 0xED then 0x80 \<le> b1 \<and> b1 \<le> 0x9F \<and> cont b2 \<and> utf8_valid (b3 # bs)
      else if 0xE1 \<le> b0 \<and> b0 \<le> 0xEF then cont b1 \<and> cont b2 \<and> utf8_valid (b3 # bs)
      else if b0 = 0xF0 then 0x90 \<le> b1 \<and> b1 \<le> 0xBF \<and> cont b2 \<and> cont b3 \<and> utf8_valid bs
      else if b0 = 0xF4 then 0x80 \<le> b1 \<and> b1 \<le> 0x8F \<and> cont b2 \<and> cont b3 \<and> utf8_valid bs
      else 0xF1 \<le> b0 \<and> b0 \<le> 0xF3 \<and> cont b1 \<and> cont b2 \<and> cont b3 \<and> utf8_valid bs)"

definition byte_char :: "8 word \<Rightarrow> char" where
  "byte_char b = char_of (unat b)"

section \<open>Outcomes\<close>

text \<open>
  Every way a method of the module can stop other than by returning. \<open>pytest.exit(x)\<close>
  raises pytest's \<open>Exit\<close>, which ends the test run. The module always calls it with
  one positional argument, which \<open>pytest.exit\<close> takes as its reason; no \<open>returncode\<close>
  is ever passed. \<open>PytestExit\<close> carries that argument. \<open>Exception\<close> carries the
  message, \<open>ExceptionCode\<close> the message and the exit code of
  \<open>Exception('Failed to add IP', exit_code)\<close>.
\<close>

datatype error =
    Exception string
  | ExceptionCode string int
  | PytestExit int
  | NameError string
  | UnboundLocalError string
  | AttributeError string
  | KeyError string
  | UnicodeDecodeError

definition decode :: "bytes \<Rightarrow> error + string" where
  "decode b = (if utf8_valid b then Inr (map byte_char b) else Inl UnicodeDecodeError)"

section \<open>The host and the external layer\<close>

text \<open>
  What the module reads from the operating system, and what it writes.
  \<open>netifs\<close> is what \<open>netifaces\<close> reports: each interface name with its IPv4 addresses,
  \<open>None\<close> when \<open>ifaddresses(iface)\<close> has no \<open>AF_INET\<close> key. \<open>procs\<close> is what
  \<open>psutil.process_iter()\<close> lists; \<open>pcmdline\<close> is \<open>None\<close> where reading the command
  line raises \<open>psutil.AccessDenied\<close>.
\<close>

record proc =
  pid :: nat
  pname :: string
  pcmdline :: "string list option"

record os_state =
  netifs :: "(string \<times> string list option) list"
  procs :: "proc list"

text \<open>
  The world a method runs in: \<open>sys.platform\<close>, the host, and the traces of what the
  module did to the outside: the texts written to \<open>sys.stdout\<close> and \<open>sys.stderr\<close>,
  the log records (level, message), the command lines given to \<open>subprocess.call\<close> and
  those given to \<open>subprocess.Popen\<close>, each in the order of the calls.
\<close>

record world =
  sys_platform :: string
  os :: os_state
  stdout_w :: "string list"
  stderr_w :: "string list"
  logged :: "(string \<times> string) list"
  called :: "string list"
  spawned :: "string list"

datatype stream = PIPE

text \<open>
  \<open>Exited out err ret\<close>: \<open>p.communicate()\<close> returned the captured output and
  \<open>p.wait()\<close> the exit code. \<open>WaitRaised\<close>: one of the two raised an \<open>Exception\<close>.
\<close>

datatype popen_result = Exited bytes bytes int | WaitRaised

text \<open>
  The external layer, which the module does not define, is a parameter:
  \<open>shell_call cmd stdout stderr\<close> is \<open>subprocess.call(cmd, stdout=.., stderr=.., shell=True)\<close>,
  giving the exit code and the host afterwards; \<open>popen cmd\<close> is \<open>subprocess.Popen\<close>
  followed by \<open>communicate\<close> and \<open>wait\<close>; \<open>kill p\<close> is \<open>p.kill()\<close>; \<open>sleep\<close> is the host
  after \<open>time.sleep(.5)\<close>.
\<close>

record env =
  shell_call :: "string \<Rightarrow> stream option \<Rightarrow> stream option \<Rightarrow> os_state \<Rightarrow> int \<times> os_state"
  popen :: "string \<Rightarrow> os_state \<Rightarrow> popen_result \<times> os_state"
  kill :: "proc \<Rightarrow> os_state \<Rightarrow> os_state"
  sleep :: "os_state \<Rightarrow> os_state"

definition write_stderr :: "string \<Rightarrow> world \<Rightarrow> world" where
  "write_stderr s w = w\<lparr>stderr_w := stderr_w w @ [s]\<rparr>"

definition write_stdout :: "string \<Rightarrow> world \<Rightarrow> world" where
  "write_stdout s w = w\<lparr>stdout_w := stdout_w w @ [s]\<rparr>"

definition log_msg :: "string \<Rightarrow> string \<Rightarrow> world \<Rightarrow> world" where
  "log_msg level s w = w\<lparr>logged := logged w @ [(level, s)]\<rparr>"

definition subprocess_call ::
  "env \<Rightarrow> string \<Rightarrow> stream option \<Rightarrow> stream option \<Rightarrow> world \<Rightarrow> int \<times> world" where
  "subprocess_call e cmd so se w =
     (case shell_call e cmd so se (os w) of
        (code, o') \<Rightarrow> (code, w\<lparr>os := o', called := called w @ [cmd]\<rparr>))"

definition subprocess_popen :: "env \<Rightarrow> string \<Rightarrow> world \<Rightarrow> popen_result \<times> world" where
  "subprocess_popen e cmd w =
     (case popen e cmd (os w) of
        (r, o') \<Rightarrow> (r, w\<lparr>os := o', spawned := spawned w @ [cmd]\<rparr>))"

section \<open>Module constants and interface discovery\<close>

definition CCM_KILLALL :: bool where
  "CCM_KILLALL = False"

definition IP_PREFIX :: string where
  "IP_PREFIX = ''127.0.5.''"

definition NUM_NODES :: int where
  "NUM_NODES = 3"

definition loopback_interfaces :: "string \<Rightarrow> world \<Rightarrow> string list" where
  "loopback_interfaces pre w = filter (\<lambda>iface. startswith iface pre) (map fst (netifs (os w)))"

text \<open>\<open>netifaces.ifaddresses(iface)[netifaces.AF_INET]\<close>: the first entry of that name.\<close>

definition ifaddresses_inet :: "world \<Rightarrow> string \<Rightarrow> error + string list" where
  "ifaddresses_inet w iface =
     (case map_of (netifs (os w)) iface of
        Some (Some addrs) \<Rightarrow> Inr addrs
      | _ \<Rightarrow> Inl (KeyError ''AF_INET''))"

fun loopbacks_loop :: "world \<Rightarrow> string list \<Rightarrow> (string \<times> string) list \<Rightarrow> error + (string \<times> string) list" where
  "loopbacks_loop w [] addrs = Inr addrs"
| "loopbacks_loop w (iface # rest) addrs =
     (case ifaddresses_inet w iface of
        Inl x \<Rightarrow> Inl x
      | Inr bs \<Rightarrow> loopbacks_loop w rest (addrs @ map (\<lambda>b. (iface, b)) bs))"

definition loopbacks :: "world \<Rightarrow> error + (string \<times> string) list" where
  "loopbacks w = loopbacks_loop w (loopback_interfaces ''lo'' w) []"

section \<open>Platform adapters\<close>

text \<open>
  The two concrete adapters, each with its \<open>lo_prefix\<close>. The base class, whose methods
  only raise \<open>NotImplementedError\<close>, is never instantiated by the module.
\<close>

datatype platform = CCMPlatformDarwin string | CCMPlatformLinux string

fun lo_prefix :: "platform \<Rightarrow> string" where
  "lo_prefix (CCMPlatformDarwin p) = p"
| "lo_prefix (CCMPlatformLinux p) = p"

fun p_mkiface :: "platform \<Rightarrow> int \<Rightarrow> string" where
  "p_mkiface (CCMPlatformDarwin p) node = p"
| "p_mkiface (CCMPlatformLinux p) node = p @ str_int node"

fun p_add_ip_cmd :: "platform \<Rightarrow> string \<Rightarrow> string \<Rightarrow> string" where
  "p_add_ip_cmd (CCMPlatformDarwin p) iface ip_addr =
     ''sudo ifconfig '' @ iface @ '' alias '' @ ip_addr"
| "p_add_ip_cmd (CCMPlatformLinux p) iface ip_addr =
     ''sudo ifconfig '' @ iface @ '' '' @ ip_addr @ '' netmask 255.0.0.0 up''"

fun p_add_ip_addr :: "env \<Rightarrow> platform \<Rightarrow> string \<Rightarrow> string \<Rightarrow> world \<Rightarrow> (error + unit) \<times> world" where
  "p_add_ip_addr e (CCMPlatformDarwin p) iface ip_addr w =
     (let cmd = p_add_ip_cmd (CCMPlatformDarwin p) iface ip_addr;
          w1 = write_stderr (''Running: '' @ cmd @ nl) w
      in case subprocess_call e cmd None None w1 of
           (exit_code, w2) \<Rightarrow>
             if exit_code \<noteq> 0 then (Inl (ExceptionCode ''Failed to add IP'' exit_code), w2)
             else (Inr (), w2))"
| "p_add_ip_addr e (CCMPlatformLinux p) iface ip_addr w =
     (let cmd = p_add_ip_cmd (CCMPlatformLinux p) iface ip_addr;
          w1 = write_stderr (''Running: '' @ cmd @ nl) w
      in case subprocess_call e cmd None None w1 of
           (exit_code, w2) \<Rightarrow>
             if exit_code \<noteq> 0 then (Inl (Exception ''Failed to add IP''), w2)
             else (Inr (), w2))"

fun p_rm_cmd :: "platform \<Rightarrow> string \<Rightarrow> string \<Rightarrow> string" where
  "p_rm_cmd (CCMPlatformDarwin p) iface ip_addr = ''sudo ifconfig lo0 -alias '' @ ip_addr"
| "p_rm_cmd (CCMPlatformLinux p) iface ip_addr = ''sudo ifconfig '' @ iface @ '' down''"

definition p_rm_ip_addr :: "env \<Rightarrow> platform \<Rightarrow> string \<Rightarrow> string \<Rightarrow> world \<Rightarrow> (error + unit) \<times> world" where
  "p_rm_ip_addr e pl iface ip_addr w =
     (let cmd = p_rm_cmd pl iface ip_addr;
          w1 = write_stderr (''Running: '' @ cmd @ nl) w
      in case subprocess_call e cmd None None w1 of
           (exit_code, w2) \<Rightarrow>
             if exit_code \<noteq> 0 then (Inl (Exception ''Failed to remove IP''), w2)
             else (Inr (), w2))"

definition platforms :: "(string \<times> platform) list" where
  "platforms = [(''darwin'', CCMPlatformDarwin ''lo0''), (''linux'', CCMPlatformLinux ''lo:auth_test'')]"

section \<open>CCMCluster\<close>

record CCMCluster =
  name :: string
  nodes :: int
  debug :: bool
  initialized :: bool
  manage_cluster :: bool
  manage_interfaces :: bool
  killall :: bool
  ip_prefix :: string
  cplatforms :: "(string \<times> platform) list"

text \<open>\<open>CCMCluster()\<close> with every argument at its default.\<close>

definition CCMCluster_default :: CCMCluster where
  "CCMCluster_default =
     \<lparr>name = [], nodes = NUM_NODES, debug = True, initialized = False,
      manage_cluster = False, manage_interfaces = False, killall = CCM_KILLALL,
      ip_prefix = IP_PREFIX, cplatforms = platforms\<rparr>"

text \<open>
  The \<open>_platform\<close> property: the adapter of the first key of the table that
  \<open>sys.platform\<close> starts with; \<open>None\<close> when there is none (the loop falls through).
  The table is a dict, so its keys are distinct.
\<close>

fun find_platform :: "(string \<times> platform) list \<Rightarrow> string \<Rightarrow> platform option" where
  "find_platform [] sp = None"
| "find_platform ((nm, pl) # rest) sp = (if startswith sp nm then Some pl else find_platform rest sp)"

definition platform_of :: "CCMCluster \<Rightarrow> world \<Rightarrow> platform option" where
  "platform_of c w = find_platform (cplatforms c) (sys_platform w)"

text \<open>The delegating methods: a method call on \<open>None\<close> raises \<open>AttributeError\<close>.\<close>

definition add_ip_cmd :: "CCMCluster \<Rightarrow> world \<Rightarrow> string \<Rightarrow> string \<Rightarrow> error + string" where
  "add_ip_cmd c w iface ip_addr =
     (case platform_of c w of
        None \<Rightarrow> Inl (AttributeError ''_add_ip_cmd'')
      | Some pl \<Rightarrow> Inr (p_add_ip_cmd pl iface ip_addr))"

definition add_ip_addr :: "env \<Rightarrow> CCMCluster \<Rightarrow> string \<Rightarrow> string \<Rightarrow> world \<Rightarrow> (error + unit) \<times> world" where
  "add_ip_addr e c iface ip_addr w =
     (case platform_of c w of
        None \<Rightarrow> (Inl (AttributeError ''_add_ip_addr''), w)
      | Some pl \<Rightarrow> p_add_ip_addr e pl iface ip_addr w)"

definition rm_ip_addr :: "env \<Rightarrow> CCMCluster \<Rightarrow> string \<Rightarrow> string \<Rightarrow> world \<Rightarrow> (error + unit) \<times> world" where
  "rm_ip_addr e c iface ip_addr w =
     (case platform_of c w of
        None \<Rightarrow> (Inl (AttributeError ''_rm_ip_addr''), w)
      | Some pl \<Rightarrow> p_rm_ip_addr e pl iface ip_addr w)"

definition mkiface :: "CCMCluster \<Rightarrow> world \<Rightarrow> int \<Rightarrow> error + string" where
  "mkiface c w node_num =
     (case platform_of c w of
        None \<Rightarrow> Inl (AttributeError ''_mkiface'')
      | Some pl \<Rightarrow> Inr (p_mkiface pl node_num))"

definition mkaddr :: "CCMCluster \<Rightarrow> int \<Rightarrow> string" where
  "mkaddr c node_num = ip_prefix c @ str_int (node_num + 1)"

definition hosts_cfg :: "CCMCluster \<Rightarrow> string" where
  "hosts_cfg c = join '', '' (map (mkaddr c) (range_py (nodes c)))"

subsection \<open>Loopback checks\<close>

text \<open>The message \<open>'Ip check failed {}.\n'.format(x)\<close>.\<close>

definition ip_check_failed :: "int \<Rightarrow> string" where
  "ip_check_failed i = ''Ip check failed '' @ str_int i @ ''.'' @ nl"

text \<open>
  The loop of \<open>_check_loopbacks\<close> over \<open>range(self.nodes)\<close>; \<open>missing\<close> is the list of
  remediation commands collected so far.
\<close>

fun check_loop ::
  "CCMCluster \<Rightarrow> (string \<times> string) list \<Rightarrow> int list \<Rightarrow> string list \<Rightarrow> world
     \<Rightarrow> (error + string list) \<times> world" where
  "check_loop c lbs [] missing w = (Inr missing, w)"
| "check_loop c lbs (x # xs) missing w =
     (case mkiface c w x of
        Inl er \<Rightarrow> (Inl er, w)
      | Inr iface \<Rightarrow>
          (let ip_addr = mkaddr c x in
           if (iface, ip_addr) \<notin> set lbs then
             (let w1 = write_stderr (ip_check_failed x) w in
              case add_ip_cmd c w1 iface ip_addr of
                Inl er \<Rightarrow> (Inl er, w1)
              | Inr cmd \<Rightarrow> check_loop c lbs xs (missing @ [cmd]) w1)
           else check_loop c lbs xs missing w))"

definition missing_header :: string where
  "missing_header =
     ''Missing network addresses.'' @ nl @
     ''You can run the following commands to resolve this:'' @ nl @ nl"

definition check_loopbacks :: "CCMCluster \<Rightarrow> world \<Rightarrow> (error + unit) \<times> world" where
  "check_loopbacks c w =
     (case loopbacks w of
        Inl er \<Rightarrow> (Inl er, w)
      | Inr lbs \<Rightarrow>
          (case check_loop c lbs (range_py (nodes c)) [] w of
             (Inl er, w1) \<Rightarrow> (Inl er, w1)
           | (Inr missing, w1) \<Rightarrow>
               if missing \<noteq> [] then
                 (Inl (PytestExit 1),
                  fold (\<lambda>cmd. write_stderr (tab @ cmd @ nl)) missing
                    (write_stderr missing_header w1))
               else (Inr (), w1)))"

text \<open>The first loop of \<open>_setup_loopbacks\<close>: add every binding that is not there.\<close>

fun setup_add_loop ::
  "env \<Rightarrow> CCMCluster \<Rightarrow> (string \<times> string) list \<Rightarrow> int list \<Rightarrow> world \<Rightarrow> (error + unit) \<times> world" where
  "setup_add_loop e c lbs [] w = (Inr (), w)"
| "setup_add_loop e c lbs (x # xs) w =
     (case mkiface c w x of
        Inl er \<Rightarrow> (Inl er, w)
      | Inr iface \<Rightarrow>
          (let ip_addr = mkaddr c x in
           if (iface, ip_addr) \<notin> set lbs then
             (let w1 = write_stderr (ip_check_failed x) w;
                  w2 = write_stderr (''Add ip address to loopback: '' @ str_int x @ nl) w1
              in case add_ip_addr e c iface ip_addr w2 of
                   (Inl er, w3) \<Rightarrow> (Inl er, w3)
                 | (Inr u, w3) \<Rightarrow> setup_add_loop e c lbs xs w3)
           else setup_add_loop e c lbs xs w))"

text \<open>
  The second loop of \<open>_setup_loopbacks\<close>. Its body is \<open>missing.append(a)\<close>, and no
  name \<open>a\<close> is bound in the method, the module or the builtins: reaching it raises
  \<open>NameError\<close>.
\<close>

fun setup_verify_loop ::
  "CCMCluster \<Rightarrow> (string \<times> string) list \<Rightarrow> int list \<Rightarrow> string list \<Rightarrow> world
     \<Rightarrow> (error + string list) \<times> world" where
  "setup_verify_loop c lbs [] missing w = (Inr missing, w)"
| "setup_verify_loop c lbs (x # xs) missing w =
     (case mkiface c w x of
        Inl er \<Rightarrow> (Inl er, w)
      | Inr iface \<Rightarrow>
          (let ip_addr = mkaddr c x in
           if (iface, ip_addr) \<notin> set lbs then
             (Inl (NameError ''a''),
              write_stderr (ip_check_failed x) w)
           else setup_verify_loop c lbs xs missing w))"

definition setup_loopbacks :: "env \<Rightarrow> CCMCluster \<Rightarrow> world \<Rightarrow> (error + unit) \<times> world" where
  "setup_loopbacks e c w =
     (case loopbacks w of
        Inl er \<Rightarrow> (Inl er, w)
      | Inr lbs \<Rightarrow>
          (case setup_add_loop e c lbs (range_py (nodes c)) w of
             (Inl er, w1) \<Rightarrow> (Inl er, w1)
           | (Inr u, w1) \<Rightarrow>
               (case loopbacks w1 of
                  Inl er \<Rightarrow> (Inl er, w1)
                | Inr lbs2 \<Rightarrow>
                    (case setup_verify_loop c lbs2 (range_py (nodes c)) [] w1 of
                       (Inl er, w2) \<Rightarrow> (Inl er, w2)
                     | (Inr missing, w2) \<Rightarrow>
                         if missing \<noteq> [] then
                           (Inl (Exception ''CCM setup exception: missing address''),
                            write_stderr
                              (''Missing network addresses: '' @ join '', '' missing @ nl) w2)
                         else (Inr (), w2)))))"

fun teardown_loop :: "env \<Rightarrow> CCMCluster \<Rightarrow> int list \<Rightarrow> world \<Rightarrow> (error + unit) \<times> world" where
  "teardown_loop e c [] w = (Inr (), w)"
| "teardown_loop e c (x # xs) w =
     (case mkiface c w x of
        Inl er \<Rightarrow> (Inl er, w)
      | Inr iface \<Rightarrow>
          (case rm_ip_addr e c iface (mkaddr c x) w of
             (Inl er, w1) \<Rightarrow> (Inl er, w1)
           | (Inr u, w1) \<Rightarrow> teardown_loop e c xs w1))"

text \<open>\<open>_teardown_loopbacks(self, nodes=NUM_NODES)\<close>, the argument given explicitly.\<close>

definition teardown_loopbacks :: "env \<Rightarrow> CCMCluster \<Rightarrow> int \<Rightarrow> world \<Rightarrow> (error + unit) \<times> world" where
  "teardown_loopbacks e c n w = teardown_loop e c (range_py n) w"

subsection \<open>Process finder\<close>

definition daemon_class :: string where
  "daemon_class = ''org.apache.cassandra.service.CassandraDaemon''"

text \<open>The inner loop of \<open>_cmdline_matches\<close>: \<open>True\<close> at the first argument that contains the name.\<close>

fun matches_loop :: "string \<Rightarrow> string list \<Rightarrow> bool" where
  "matches_loop nm [] = False"
| "matches_loop nm (arg # args) = (if str_find arg nm \<noteq> - 1 then True else matches_loop nm args)"

definition cmdline_matches :: "CCMCluster \<Rightarrow> string list \<Rightarrow> bool" where
  "cmdline_matches c cmdline =
     (if daemon_class \<in> set cmdline then matches_loop (name c) cmdline else False)"

text \<open>The command line \<open>_cassandra_processes\<close> inspects for one process.\<close>

definition proc_cmdline :: "proc \<Rightarrow> world \<Rightarrow> string list \<times> world" where
  "proc_cmdline p w =
     (if pname p = ''java'' then
        (case pcmdline p of
           Some cl \<Rightarrow> (cl, w)
         | None \<Rightarrow> ([], log_msg ''debug'' ''Unable to access commandline of java process'' w))
      else ([], w))"

fun processes_loop :: "CCMCluster \<Rightarrow> proc list \<Rightarrow> world \<Rightarrow> proc list \<times> world" where
  "processes_loop c [] w = ([], w)"
| "processes_loop c (p # ps) w =
     (case proc_cmdline p w of
        (cl, w1) \<Rightarrow>
          (case processes_loop c ps w1 of
             (found, w2) \<Rightarrow> (if cmdline_matches c cl then p # found else found, w2)))"

text \<open>\<open>list(self._cassandra_processes())\<close>, over the processes listed at the call.\<close>

definition cassandra_processes :: "CCMCluster \<Rightarrow> world \<Rightarrow> proc list \<times> world" where
  "cassandra_processes c w = processes_loop c (procs (os w)) w"

text \<open>\<open>_kill_all\<close> consumes the generator one process at a time, killing each match.\<close>

fun kill_loop :: "env \<Rightarrow> CCMCluster \<Rightarrow> proc list \<Rightarrow> world \<Rightarrow> world" where
  "kill_loop e c [] w = w"
| "kill_loop e c (p # ps) w =
     (case proc_cmdline p w of
        (cl, w1) \<Rightarrow>
          if cmdline_matches c cl then
            (let w2 = log_msg ''warning'' (''Kill process '' @ str_nat (pid p)) w1
             in kill_loop e c ps (w2\<lparr>os := kill e p (os w2)\<rparr>))
          else kill_loop e c ps w1)"

definition kill_all :: "env \<Rightarrow> CCMCluster \<Rightarrow> world \<Rightarrow> world" where
  "kill_all e c w = kill_loop e c (procs (os w)) w"

definition check_state :: "env \<Rightarrow> CCMCluster \<Rightarrow> world \<Rightarrow> (error + unit) \<times> world" where
  "check_state e c w =
     (case (if manage_interfaces c then setup_loopbacks e c w else check_loopbacks c w) of
        (Inl er, w1) \<Rightarrow> (Inl er, w1)
      | (Inr u, w1) \<Rightarrow>
          if killall c then
            (case cassandra_processes c w1 of
               (found, w2) \<Rightarrow>
                 if length found \<noteq> 0 then
                   (Inr (),
                    kill_all e c
                      (log_msg ''warning''
                         (''Killing all cassandra processess, disable this by '' @
                          ''setting CCMCluster.killall to False'') w2))
                 else (Inr (), w2))
          else (Inr (), w1))"

subsection \<open>Cluster creation and removal\<close>

text \<open>The \<open>stdout\<close> and \<open>stderr\<close> properties: \<open>subprocess.PIPE\<close> unless \<open>debug\<close>, else \<open>None\<close>.\<close>

definition stdout_of :: "CCMCluster \<Rightarrow> stream option" where
  "stdout_of c = (if \<not> debug c then Some PIPE else None)"

definition stderr_of :: "CCMCluster \<Rightarrow> stream option" where
  "stderr_of c = (if \<not> debug c then Some PIPE else None)"

definition create_cmd :: "CCMCluster \<Rightarrow> string" where
  "create_cmd c =
     ''ccm create '' @ name c @ '' --nodes 3 -v 3.7 -i '' @ [CHR 0x27] @ ip_prefix c @
     [CHR 0x27] @ '' --start --no-switch''"

text \<open>
  \<open>_create_cluster\<close>. When the wait raises, the handler binds the exception to \<open>e\<close>
  and Python 3 unbinds \<open>e\<close> at the end of the handler, so the test \<open>if e or ret != 0\<close>
  that follows raises \<open>UnboundLocalError\<close>. When it does not raise, \<open>e\<close> is \<open>None\<close>
  and the test is \<open>ret != 0\<close>.
\<close>

definition create_cluster :: "env \<Rightarrow> CCMCluster \<Rightarrow> world \<Rightarrow> (error + unit) \<times> world" where
  "create_cluster e c w =
     (if name c = [] then (Inl (Exception ''Set name before calling create cluster''), w)
      else
        (case subprocess_popen e (create_cmd c) w of
           (WaitRaised, w1) \<Rightarrow>
             (Inl (UnboundLocalError ''e''),
              log_msg ''error'' ''Exception waiting for sub-process'' w1)
         | (Exited out err ret, w1) \<Rightarrow>
             if ret \<noteq> 0 then
               (case decode out of
                  Inl er \<Rightarrow> (Inl er, w1)
                | Inr out_text \<Rightarrow>
                    (let w2 = write_stdout out_text w1 in
                     case decode err of
                       Inl er \<Rightarrow> (Inl er, w2)
                     | Inr err_text \<Rightarrow> (Inl (PytestExit ret), write_stderr err_text w2)))
             else (Inr (), w1)))"

text \<open>
  The polling loop of \<open>_remove_cluster\<close> may run forever; \<open>k\<close> bounds the number of
  times its condition is evaluated, and \<open>None\<close> is "still polling after \<open>k\<close> tests".
\<close>

fun wait_gone :: "nat \<Rightarrow> env \<Rightarrow> CCMCluster \<Rightarrow> world \<Rightarrow> world option" where
  "wait_gone 0 e c w = None"
| "wait_gone (Suc k) e c w =
     (case cassandra_processes c w of
        (found, w1) \<Rightarrow>
          if length found > 0 then wait_gone k e c (w1\<lparr>os := sleep e (os w1)\<rparr>)
          else Some w1)"

definition remove_cmd :: "CCMCluster \<Rightarrow> string" where
  "remove_cmd c = ''ccm remove '' @ name c"

definition remove_cluster ::
  "nat \<Rightarrow> env \<Rightarrow> CCMCluster \<Rightarrow> world \<Rightarrow> ((error + unit) \<times> world) option" where
  "remove_cluster k e c w =
     (case subprocess_call e (remove_cmd c) (stdout_of c) (stderr_of c) w of
        (ret, w1) \<Rightarrow>
          if ret \<noteq> 0 then Some (Inl (Exception ''Problem removing test cluster''), w1)
          else (case wait_gone k e c w1 of
                  None \<Rightarrow> None
                | Some w2 \<Rightarrow> Some (Inr (), w2)))"

subsection \<open>Lifecycle\<close>

text \<open>The step \<open>if args: self.name = args[0]\<close> of \<open>setup\<close>.\<close>

definition set_name_arg :: "CCMCluster \<Rightarrow> string list \<Rightarrow> CCMCluster" where
  "set_name_arg c args = (case args of [] \<Rightarrow> c | a # rest \<Rightarrow> c\<lparr>name := a\<rparr>)"

text \<open>
  \<open>setup(*args)\<close>, named \<open>ccm_setup\<close> here because \<open>setup\<close> is a reserved word of
  the theory language. The result is the returned value: \<open>Some True\<close> for \<open>return True\<close>,
  \<open>None\<close> when the method falls off its end. \<open>_check_state\<close> runs before the
  \<open>try\<close>; the \<open>finally\<close> clause sets the flag whatever \<open>_create_cluster\<close> did.
\<close>

definition ccm_setup ::
  "env \<Rightarrow> CCMCluster \<Rightarrow> string list \<Rightarrow> world \<Rightarrow> (error + bool option) \<times> CCMCluster \<times> world" where
  "ccm_setup e c args w =
     (if initialized c then (Inr (Some True), c, w)
      else
        (let c1 = set_name_arg c args in
         case check_state e c1 w of
           (Inl er, w1) \<Rightarrow> (Inl er, c1, w1)
         | (Inr u, w1) \<Rightarrow>
             (case create_cluster e c1 w1 of
                (Inl er, w2) \<Rightarrow> (Inl er, c1\<lparr>initialized := True\<rparr>, w2)
              | (Inr u2, w2) \<Rightarrow> (Inr None, c1\<lparr>initialized := True\<rparr>, w2))))"

text \<open>The body of the \<open>try\<close> of \<open>teardown\<close>; \<open>_teardown_loopbacks()\<close> is called without argument.\<close>

definition teardown_body ::
  "nat \<Rightarrow> env \<Rightarrow> CCMCluster \<Rightarrow> world \<Rightarrow> ((error + unit) \<times> world) option" where
  "teardown_body k e c w =
     (case remove_cluster k e c w of
        None \<Rightarrow> None
      | Some (Inl er, w1) \<Rightarrow> Some (Inl er, w1)
      | Some (Inr u, w1) \<Rightarrow>
          if manage_interfaces c then Some (teardown_loopbacks e c NUM_NODES w1)
          else Some (Inr (), w1))"

text \<open>
  \<open>teardown\<close>. The \<open>finally\<close> clause sets the flag to \<open>True\<close> and runs the state check;
  an exception raised there replaces the one of the body, otherwise the body's is
  re-raised. \<open>None\<close>: the body is still polling after \<open>k\<close> tests.
\<close>

definition teardown ::
  "nat \<Rightarrow> env \<Rightarrow> CCMCluster \<Rightarrow> world \<Rightarrow> ((error + bool option) \<times> CCMCluster \<times> world) option" where
  "teardown k e c w =
     (if \<not> initialized c then Some (Inr (Some True), c, w)
      else
        (case teardown_body k e c w of
           None \<Rightarrow> None
         | Some (r, w1) \<Rightarrow>
             (let c1 = c\<lparr>initialized := True\<rparr> in
              case check_state e c1 w1 of
                (Inl er, w2) \<Rightarrow> Some (Inl er, c1, w2)
              | (Inr u, w2) \<Rightarrow>
                  (case r of
                     Inl er \<Rightarrow> Some (Inl er, c1, w2)
                   | Inr u2 \<Rightarrow> Some (Inr None, c1, w2)))))"

subsection \<open>The cluster object of the session fixture\<close>

text \<open>The module-level \<open>ccm_cluster = CCMCluster(manage_interfaces=False)\<close>.\<close>

definition ccm_cluster :: CCMCluster where
  "ccm_cluster = CCMCluster_default\<lparr>manage_interfaces := False\<rparr>"

section \<open>Notions used in the statements\<close>

text \<open>
  The binding \<open>(interface, address)\<close> that node \<open>i\<close> needs on platform \<open>pl\<close>, the node
  indices of \<open>range(self.nodes)\<close> whose binding is not among \<open>lbs\<close>, in increasing
  order, and the add-address command that remedies a missing node.
\<close>

definition required_binding :: "platform \<Rightarrow> CCMCluster \<Rightarrow> int \<Rightarrow> string \<times> string" where
  "required_binding pl c i = (p_mkiface pl i, mkaddr c i)"

definition missing_nodes :: "platform \<Rightarrow> CCMCluster \<Rightarrow> (string \<times> string) list \<Rightarrow> int list" where
  "missing_nodes pl c lbs = filter (\<lambda>i. required_binding pl c i \<notin> set lbs) (range_py (nodes c))"

definition remediation :: "platform \<Rightarrow> CCMCluster \<Rightarrow> int \<Rightarrow> string" where
  "remediation pl c i = p_add_ip_cmd pl (p_mkiface pl i) (mkaddr c i)"

text \<open>The alias-removal command of node \<open>i\<close>.\<close>

definition removal :: "platform \<Rightarrow> CCMCluster \<Rightarrow> int \<Rightarrow> string" where
  "removal pl c i = p_rm_cmd pl (p_mkiface pl i) (mkaddr c i)"

text \<open>
  Running one alias-removal command: it is announced on \<open>sys.stderr\<close> and given to
  \<open>subprocess.call\<close>; the result is its exit code and the world afterwards.
\<close>

definition run_removal :: "env \<Rightarrow> string \<Rightarrow> world \<Rightarrow> int \<times> world" where
  "run_removal e cmd w =
     subprocess_call e cmd None None (write_stderr (''Running: '' @ cmd @ nl) w)"

section \<open>Example hosts\<close>

text \<open>
  Concrete hosts and external layers on which the theorems below are exercised.
  \<open>env_quiet\<close>: every command exits 0 and leaves the host as it is, \<open>ccm create\<close>
  prints nothing, a killed process leaves the process list, sleeping changes nothing.
\<close>

definition env_quiet :: env where
  "env_quiet =
     \<lparr>shell_call = (\<lambda>cmd so se h. (0, h)),
      popen = (\<lambda>cmd h. (Exited [] [] 0, h)),
      kill = (\<lambda>p h. h\<lparr>procs := filter (\<lambda>q. pid q \<noteq> pid p) (procs h)\<rparr>),
      sleep = (\<lambda>h. h)\<rparr>"

text \<open>A Linux host whose only loopback address is \<open>127.0.0.1\<close> on \<open>lo\<close>, with no process.\<close>

definition world_bare :: world where
  "world_bare =
     \<lparr>sys_platform = ''linux'',
      os = \<lparr>netifs = [(''lo'', Some [''127.0.0.1''])], procs = []\<rparr>,
      stdout_w = [], stderr_w = [], logged = [], called = [], spawned = []\<rparr>"

text \<open>
  The same host with the three alias interfaces of the default cluster configured:
  \<open>lo:auth_test0\<close> to \<open>lo:auth_test2\<close> bound to \<open>127.0.5.1\<close> to \<open>127.0.5.3\<close>.
\<close>

definition world_ready :: world where
  "world_ready =
     world_bare\<lparr>os :=
       \<lparr>netifs = [(''lo'', Some [''127.0.0.1'']),
                  (''lo:auth_test0'', Some [''127.0.5.1'']),
                  (''lo:auth_test1'', Some [''127.0.5.2'']),
                  (''lo:auth_test2'', Some [''127.0.5.3''])],
        procs = []\<rparr>\<rparr>"

text \<open>
  External layers in which \<open>ccm create\<close> fails: it prints \<open>boom\<close> on its standard
  output and \<open>bad\<close> on its standard error and exits with code 2; or it prints the
  single byte \<open>0xFF\<close> and exits with code 1.
\<close>

definition env_create_fails :: env where
  "env_create_fails =
     env_quiet\<lparr>popen := (\<lambda>cmd h. (Exited [0x62, 0x6F, 0x6F, 0x6D] [0x62, 0x61, 0x64] 2, h))\<rparr>"

definition env_create_garbled :: env where
  "env_create_garbled = env_quiet\<lparr>popen := (\<lambda>cmd h. (Exited [0xFF] [] 1, h))\<rparr>"

text \<open>The same host with the alias of node 0 only.\<close>

definition world_one :: world where
  "world_one =
     world_bare\<lparr>os :=
       \<lparr>netifs = [(''lo'', Some [''127.0.0.1'']), (''lo:auth_test0'', Some [''127.0.5.1''])],
        procs = []\<rparr>\<rparr>"

text \<open>
  An external layer on a host that has no alias \<open>lo:auth_test1\<close>: bringing that
  interface down fails with exit code 1; every other command exits 0.
\<close>

definition env_no_alias1 :: env where
  "env_no_alias1 =
     env_quiet\<lparr>shell_call :=
       (\<lambda>cmd so se h. if cmd = ''sudo ifconfig lo:auth_test1 down'' then (1, h) else (0, h))\<rparr>"

section \<open>Properties of the string helpers\<close>

lemma startswith_prefix: "startswith s p \<longleftrightarrow> prefix p s"
  by (induction s p rule: startswith.induct) auto

lemma find_from_sublist: "0 \<le> i \<Longrightarrow> (find_from s sub i \<noteq> - 1) \<longleftrightarrow> sublist sub s"
proof (induction s arbitrary: i)
  case Nil
  then show ?case by auto
next
  case (Cons ch s)
  show ?case
  proof (cases "startswith (ch # s) sub")
    case True
    then have "prefix sub (ch # s)" by (simp add: startswith_prefix)
    then have "sublist sub (ch # s)" by (rule prefix_imp_sublist)
    with True Cons.prems show ?thesis by simp
  next
    case False
    then have np: "\<not> prefix sub (ch # s)" by (simp add: startswith_prefix)
    have "0 \<le> i + 1" using Cons.prems by simp
    then have "(find_from s sub (i + 1) \<noteq> - 1) \<longleftrightarrow> sublist sub s" by (rule Cons.IH)
    with False np show ?thesis by (simp add: sublist_Cons_right)
  qed
qed

lemma str_find_sublist: "(str_find s sub \<noteq> - 1) \<longleftrightarrow> (\<exists>pre suf. s = pre @ sub @ suf)"
  by (simp add: str_find_def find_from_sublist sublist_def)

lemma matches_loop_iff: "matches_loop nm args \<longleftrightarrow> (\<exists>arg \<in> set args. \<exists>pre suf. arg = pre @ nm @ suf)"
  by (induction args) (auto simp: str_find_sublist simp del: str_find_def)

lemma of_char_digit_char: "d < 10 \<Longrightarrow> (of_char (digit_char d) :: nat) = 48 + d"
  by (simp add: digit_char_def)

lemma is_digit_digit_char: "d < 10 \<Longrightarrow> is_digit (digit_char d)"
  by (simp add: is_digit_def of_char_digit_char)

lemma digit_val_digit_char: "d < 10 \<Longrightarrow> digit_val (digit_char d) = d"
  by (simp add: digit_val_def of_char_digit_char)

lemma digit_char_zero: "d < 10 \<Longrightarrow> digit_char d = CHR ''0'' \<longleftrightarrow> d = 0"
proof -
  assume d: "d < 10"
  have z: "(of_char (CHR ''0'') :: nat) = 48" by simp
  show ?thesis
  proof
    assume "digit_char d = CHR ''0''"
    then have "(of_char (digit_char d) :: nat) = 48" using z by simp
    with d show "d = 0" by (simp add: of_char_digit_char)
  next
    assume "d = 0"
    moreover have "digit_char 0 = CHR ''0''" by code_simp
    ultimately show "digit_char d = CHR ''0''" by simp
  qed
qed

lemma dec_value_snoc: "dec_value (ds @ [ch]) = 10 * dec_value ds + digit_val ch"
  by (simp add: dec_value_def)

lemma str_nat_nonempty: "str_nat n \<noteq> []"
  by (subst str_nat.simps) simp

lemma str_nat_digits: "list_all is_digit (str_nat n)"
proof (induction n rule: str_nat.induct)
  case (1 n)
  show ?case
  proof (cases "n < 10")
    case True
    then show ?thesis by (subst str_nat.simps) (simp add: is_digit_digit_char)
  next
    case False
    with "1" have "list_all is_digit (str_nat (n div 10))" by simp
    with False show ?thesis by (subst str_nat.simps) (simp add: is_digit_digit_char)
  qed
qed

lemma str_nat_value: "dec_value (str_nat n) = n"
proof (induction n rule: str_nat.induct)
  case (1 n)
  show ?case
  proof (cases "n < 10")
    case True
    then show ?thesis
      by (subst str_nat.simps) (simp add: dec_value_def digit_val_digit_char)
  next
    case False
    with "1" have "dec_value (str_nat (n div 10)) = n div 10" by simp
    with False show ?thesis
      by (subst str_nat.simps) (simp add: dec_value_snoc digit_val_digit_char)
  qed
qed

lemma str_nat_hd: "0 < n \<Longrightarrow> hd (str_nat n) \<noteq> CHR ''0''"
proof (induction n rule: str_nat.induct)
  case (1 n)
  show ?case
  proof (cases "n < 10")
    case True
    with "1.prems" show ?thesis by (subst str_nat.simps) (simp add: digit_char_zero)
  next
    case False
    then have "0 < n div 10" by simp
    with False "1.IH" have "hd (str_nat (n div 10)) \<noteq> CHR ''0''" by simp
    with False show ?thesis by (subst str_nat.simps) (simp add: str_nat_nonempty)
  qed
qed

lemma str_nat_decimal: "0 < n \<Longrightarrow> is_decimal_of (str_nat n) n"
  by (simp add: is_decimal_of_def str_nat_nonempty str_nat_digits str_nat_value str_nat_hd)

lemma range_py_nth: "0 \<le> i \<Longrightarrow> i < n \<Longrightarrow> range_py n ! nat i = i"
  by (simp add: range_py_def)

lemma range_py_length: "length (range_py n) = nat n"
  by (simp add: range_py_def)

section \<open>What the methods leave untouched\<close>

text \<open>
  Only \<open>_create_cluster\<close> calls \<open>subprocess.Popen\<close>: every other method leaves the
  trace of spawned commands as it found it.
\<close>

lemma spawned_write_stderr [simp]: "spawned (write_stderr s w) = spawned w"
  by (simp add: write_stderr_def)

lemma spawned_write_stdout [simp]: "spawned (write_stdout s w) = spawned w"
  by (simp add: write_stdout_def)

lemma spawned_log_msg [simp]: "spawned (log_msg l s w) = spawned w"
  by (simp add: log_msg_def)

lemma spawned_fold_write_stderr [simp]:
  "spawned (fold (\<lambda>cmd. write_stderr (f cmd)) xs w) = spawned w"
  by (induction xs arbitrary: w) simp_all

lemma subprocess_call_spawned:
  "subprocess_call e cmd so se w = (code, w') \<Longrightarrow> spawned w' = spawned w"
  by (auto simp: subprocess_call_def split: prod.splits)

lemma p_add_ip_addr_spawned:
  "p_add_ip_addr e pl iface ip w = (r, w') \<Longrightarrow> spawned w' = spawned w"
  by (cases pl) (auto simp: Let_def split: prod.splits if_splits dest!: subprocess_call_spawned)

lemma add_ip_addr_spawned:
  "add_ip_addr e c iface ip w = (r, w') \<Longrightarrow> spawned w' = spawned w"
  by (auto simp: add_ip_addr_def split: option.splits dest: p_add_ip_addr_spawned)

lemma rm_ip_addr_spawned:
  "rm_ip_addr e c iface ip w = (r, w') \<Longrightarrow> spawned w' = spawned w"
  by (auto simp: rm_ip_addr_def p_rm_ip_addr_def Let_def
      split: option.splits prod.splits if_splits dest!: subprocess_call_spawned)

lemma check_loop_spawned:
  "check_loop c lbs xs missing w = (r, w') \<Longrightarrow> spawned w' = spawned w"
proof (induction xs arbitrary: missing w)
  case Nil
  then show ?case by simp
next
  case (Cons x xs)
  then show ?case
    by (fastforce simp: Let_def split: sum.splits if_splits)
qed

lemma check_loopbacks_spawned:
  "check_loopbacks c w = (r, w') \<Longrightarrow> spawned w' = spawned w"
  by (auto simp: check_loopbacks_def split: sum.splits prod.splits if_splits
      dest: check_loop_spawned)

lemma setup_add_loop_spawned:
  "setup_add_loop e c lbs xs w = (r, w') \<Longrightarrow> spawned w' = spawned w"
proof (induction xs arbitrary: w)
  case Nil
  then show ?case by simp
next
  case (Cons x xs)
  then show ?case
    by (fastforce simp: Let_def split: sum.splits if_splits prod.splits
        dest: add_ip_addr_spawned)
qed

lemma setup_verify_loop_spawned:
  "setup_verify_loop c lbs xs missing w = (r, w') \<Longrightarrow> spawned w' = spawned w"
proof (induction xs arbitrary: missing w)
  case Nil
  then show ?case by simp
next
  case (Cons x xs)
  then show ?case
    by (fastforce simp: Let_def split: sum.splits if_splits)
qed

lemma setup_loopbacks_spawned:
  "setup_loopbacks e c w = (r, w') \<Longrightarrow> spawned w' = spawned w"
  by (auto simp: setup_loopbacks_def split: sum.splits prod.splits if_splits
      dest!: setup_add_loop_spawned setup_verify_loop_spawned)

lemma proc_cmdline_spawned:
  "proc_cmdline p w = (cl, w') \<Longrightarrow> spawned w' = spawned w"
  by (auto simp: proc_cmdline_def split: if_splits option.splits)

lemma processes_loop_spawned:
  "processes_loop c ps w = (found, w') \<Longrightarrow> spawned w' = spawned w"
proof (induction ps arbitrary: w found)
  case Nil
  then show ?case by simp
next
  case (Cons p ps)
  then show ?case
    by (fastforce split: prod.splits dest: proc_cmdline_spawned)
qed

lemma cassandra_processes_spawned:
  "cassandra_processes c w = (found, w') \<Longrightarrow> spawned w' = spawned w"
  by (auto simp: cassandra_processes_def dest: processes_loop_spawned)

lemma kill_loop_spawned: "spawned (kill_loop e c ps w) = spawned w"
proof (induction ps arbitrary: w)
  case Nil
  then show ?case by simp
next
  case (Cons p ps)
  obtain cl w1 where pc: "proc_cmdline p w = (cl, w1)" by (cases "proc_cmdline p w")
  then have "spawned w1 = spawned w" by (rule proc_cmdline_spawned)
  with pc Cons show ?case by (simp add: Let_def)
qed

lemma kill_all_spawned: "spawned (kill_all e c w) = spawned w"
  by (simp add: kill_all_def kill_loop_spawned)

lemma check_state_spawned:
  "check_state e c w = (r, w') \<Longrightarrow> spawned w' = spawned w"
  by (auto simp: check_state_def kill_all_spawned
      split: sum.splits prod.splits if_splits
      dest!: setup_loopbacks_spawned check_loopbacks_spawned cassandra_processes_spawned)

lemma create_cluster_spawned:
  "create_cluster e c w = (r, w') \<Longrightarrow>
     spawned w' = spawned w \<or> spawned w' = spawned w @ [create_cmd c]"
  by (auto simp: create_cluster_def subprocess_popen_def Let_def
      split: if_splits prod.splits popen_result.splits sum.splits)


lemma setup_initialized_noop:
  "initialized c \<Longrightarrow> ccm_setup e c args w = (Inr (Some True), c, w)"
  by (simp add: ccm_setup_def)

lemma initialized_set_name_arg [simp]: "initialized (set_name_arg c args) = initialized c"
  by (simp add: set_name_arg_def split: list.splits)

lemma create_cmd_initialized [simp]: "create_cmd (c\<lparr>initialized := b\<rparr>) = create_cmd c"
  by (simp add: create_cmd_def)

lemma setup_outcomes:
  assumes "ccm_setup e c args w = (r, c', w')"
  shows "(\<not> initialized c' \<and> spawned w' = spawned w \<and> (\<exists>er. r = Inl er))
       \<or> (initialized c' \<and> (spawned w' = spawned w \<or> spawned w' = spawned w @ [create_cmd c']))"
proof (cases "initialized c")
  case True
  with assms show ?thesis by (simp add: ccm_setup_def)
next
  case False
  let ?c1 = "set_name_arg c args"
  obtain r1 w1 where cs: "check_state e ?c1 w = (r1, w1)" by (cases "check_state e ?c1 w")
  then have sp1: "spawned w1 = spawned w" by (rule check_state_spawned)
  show ?thesis
  proof (cases r1)
    case (Inl er)
    with assms False cs sp1 show ?thesis by (auto simp: ccm_setup_def Let_def)
  next
    case (Inr u)
    obtain r2 w2 where cc: "create_cluster e ?c1 w1 = (r2, w2)"
      by (cases "create_cluster e ?c1 w1")
    then have sp2: "spawned w2 = spawned w1 \<or> spawned w2 = spawned w1 @ [create_cmd ?c1]"
      by (rule create_cluster_spawned)
    from assms False cs Inr cc have "c' = ?c1\<lparr>initialized := True\<rparr>" and "w' = w2"
      by (auto simp: ccm_setup_def Let_def split: sum.splits)
    with sp1 sp2 show ?thesis by auto
  qed
qed

lemma initialized_update_same: "initialized c \<Longrightarrow> c\<lparr>initialized := True\<rparr> = c"
  by (cases c) simp

lemma wait_gone_returns:
  "cassandra_processes c w = ([], w1) \<Longrightarrow> wait_gone (Suc k) e c w = Some w1"
  by simp

lemma loopbacks_ready:
  "loopbacks world_ready =
     Inr [(''lo'', ''127.0.0.1''), (''lo:auth_test0'', ''127.0.5.1''),
          (''lo:auth_test1'', ''127.0.5.2''), (''lo:auth_test2'', ''127.0.5.3'')]"
  by (simp add: loopbacks_def loopback_interfaces_def world_ready_def world_bare_def
      ifaddresses_inet_def)

lemma check_state_ready: "check_state env_quiet CCMCluster_default world_ready = (Inr (), world_ready)"
  by code_simp


section \<open>The loop of the loopback check\<close>

lemma platform_of_write_stderr [simp]: "platform_of c (write_stderr s w) = platform_of c w"
  by (simp add: platform_of_def write_stderr_def)

lemma write_stderr_update:
  "write_stderr s (w\<lparr>stderr_w := xs\<rparr>) = w\<lparr>stderr_w := xs @ [s]\<rparr>"
  by (simp add: write_stderr_def)

lemma write_stderr_as_update: "write_stderr s w = w\<lparr>stderr_w := stderr_w w @ [s]\<rparr>"
  by (simp add: write_stderr_def)

lemma stderr_update_same [simp]: "w\<lparr>stderr_w := stderr_w w\<rparr> = w"
  by simp

lemma fold_write_stderr:
  "fold (\<lambda>x. write_stderr (f x)) xs w = w\<lparr>stderr_w := stderr_w w @ map f xs\<rparr>"
proof (induction xs arbitrary: w)
  case Nil
  show ?case by simp
next
  case (Cons x xs)
  have "fold (\<lambda>x. write_stderr (f x)) (x # xs) w
          = fold (\<lambda>x. write_stderr (f x)) xs (write_stderr (f x) w)"
    by simp
  also have "\<dots> = (write_stderr (f x) w)
                      \<lparr>stderr_w := stderr_w (write_stderr (f x) w) @ map f xs\<rparr>"
    by (rule Cons.IH)
  also have "\<dots> = w\<lparr>stderr_w := stderr_w w @ map f (x # xs)\<rparr>"
    by (simp add: write_stderr_def)
  finally show ?case .
qed

lemma check_loop_result:
  assumes "platform_of c w = Some pl"
  shows "check_loop c lbs xs missing w =
           (Inr (missing @ map (remediation pl c)
                   (filter (\<lambda>i. required_binding pl c i \<notin> set lbs) xs)),
            w\<lparr>stderr_w := stderr_w w @ map ip_check_failed
                   (filter (\<lambda>i. required_binding pl c i \<notin> set lbs) xs)\<rparr>)"
  using assms
proof (induction xs arbitrary: missing w)
  case Nil
  show ?case by simp
next
  case (Cons x xs)
  let ?miss = "\<lambda>i. required_binding pl c i \<notin> set lbs"
  have mk: "mkiface c w x = Inr (p_mkiface pl x)" using Cons.prems by (simp add: mkiface_def)
  show ?case
  proof (cases "required_binding pl c x \<in> set lbs")
    case True
    then have "check_loop c lbs (x # xs) missing w = check_loop c lbs xs missing w"
      using mk by (simp add: required_binding_def)
    also have "\<dots> = (Inr (missing @ map (remediation pl c) (filter ?miss xs)),
            w\<lparr>stderr_w := stderr_w w @ map ip_check_failed (filter ?miss xs)\<rparr>)"
      by (rule Cons.IH [OF Cons.prems])
    finally show ?thesis using True by simp
  next
    case False
    let ?w1 = "write_stderr (ip_check_failed x) w"
    have p1: "platform_of c ?w1 = Some pl" using Cons.prems by simp
    have cmd: "add_ip_cmd c ?w1 (p_mkiface pl x) (mkaddr c x) = Inr (remediation pl c x)"
      using p1 by (simp add: add_ip_cmd_def remediation_def)
    have "check_loop c lbs (x # xs) missing w
            = check_loop c lbs xs (missing @ [remediation pl c x]) ?w1"
      using False mk cmd
      by (simp add: required_binding_def)
    also have "\<dots> = (Inr ((missing @ [remediation pl c x])
                          @ map (remediation pl c) (filter ?miss xs)),
            ?w1\<lparr>stderr_w := stderr_w ?w1 @ map ip_check_failed (filter ?miss xs)\<rparr>)"
      by (rule Cons.IH [OF p1])
    also have "\<dots> = (Inr (missing @ map (remediation pl c) (filter ?miss (x # xs))),
            w\<lparr>stderr_w := stderr_w w @ map ip_check_failed (filter ?miss (x # xs))\<rparr>)"
      using False by (simp add: write_stderr_def)
    finally show ?thesis .
  qed
qed

lemma set_range_py: "set (range_py n) = {i. 0 \<le> i \<and> i < n}"
proof (rule set_eqI)
  fix i
  show "i \<in> set (range_py n) \<longleftrightarrow> i \<in> {i. 0 \<le> i \<and> i < n}"
  proof
    assume "i \<in> set (range_py n)"
    then show "i \<in> {i. 0 \<le> i \<and> i < n}" by (auto simp: range_py_def)
  next
    assume "i \<in> {i. 0 \<le> i \<and> i < n}"
    then have "i = int (nat i)" and "nat i < nat n" by simp_all
    then have "i \<in> int ` {0..<nat n}" by (metis atLeastLessThan_iff image_eqI le0)
    then show "i \<in> set (range_py n)" by (simp add: range_py_def)
  qed
qed

lemma missing_nodes_empty:
  "missing_nodes pl c lbs = [] \<longleftrightarrow>
     (\<forall>i. 0 \<le> i \<and> i < nodes c \<longrightarrow> required_binding pl c i \<in> set lbs)"
  by (auto simp: missing_nodes_def filter_empty_conv set_range_py)

section \<open>The commands run by teardown\<close>

text \<open>
  What the body of \<open>teardown\<close> adds to the trace of \<open>subprocess.call\<close> commands, and
  that none of it reads \<open>self.nodes\<close>.
\<close>

lemma subprocess_call_called:
  "subprocess_call e cmd so se w = (code, w') \<Longrightarrow>
     called w' = called w @ [cmd] \<and> sys_platform w' = sys_platform w"
  by (auto simp: subprocess_call_def split: prod.splits)

lemma proc_cmdline_called:
  "proc_cmdline p w = (cl, w') \<Longrightarrow> called w' = called w \<and> sys_platform w' = sys_platform w"
  by (auto simp: proc_cmdline_def log_msg_def split: if_splits option.splits)

lemma processes_loop_called:
  "processes_loop c ps w = (found, w') \<Longrightarrow>
     called w' = called w \<and> sys_platform w' = sys_platform w"
proof (induction ps arbitrary: w found)
  case Nil
  then show ?case by simp
next
  case (Cons p ps)
  then show ?case
    by (fastforce split: prod.splits dest: proc_cmdline_called)
qed

lemma cassandra_processes_called:
  "cassandra_processes c w = (found, w') \<Longrightarrow>
     called w' = called w \<and> sys_platform w' = sys_platform w"
  by (auto simp: cassandra_processes_def dest: processes_loop_called)

lemma wait_gone_called:
  "wait_gone k e c w = Some w' \<Longrightarrow> called w' = called w \<and> sys_platform w' = sys_platform w"
proof (induction k arbitrary: w)
  case 0
  then show ?case by simp
next
  case (Suc k)
  obtain found w1 where cp: "cassandra_processes c w = (found, w1)"
    by (cases "cassandra_processes c w")
  then have f1: "called w1 = called w \<and> sys_platform w1 = sys_platform w"
    by (rule cassandra_processes_called)
  show ?case
  proof (cases "length found > 0")
    case True
    with Suc.prems cp have "wait_gone k e c (w1\<lparr>os := sleep e (os w1)\<rparr>) = Some w'" by simp
    from Suc.IH [OF this] f1 show ?thesis by simp
  next
    case False
    with Suc.prems cp have "w' = w1" by simp
    with f1 show ?thesis by simp
  qed
qed

lemma remove_cluster_called:
  assumes "remove_cluster k e c w = Some (r, w')"
  shows "called w' = called w @ [remove_cmd c] \<and> sys_platform w' = sys_platform w"
proof -
  obtain ret w1 where sc: "subprocess_call e (remove_cmd c) (stdout_of c) (stderr_of c) w = (ret, w1)"
    by (cases "subprocess_call e (remove_cmd c) (stdout_of c) (stderr_of c) w")
  then have f1: "called w1 = called w @ [remove_cmd c] \<and> sys_platform w1 = sys_platform w"
    by (rule subprocess_call_called)
  show ?thesis
  proof (cases "ret \<noteq> 0")
    case True
    with assms sc have "w' = w1" by (simp add: remove_cluster_def)
    with f1 show ?thesis by simp
  next
    case False
    with assms sc obtain w2 where wg: "wait_gone k e c w1 = Some w2" and "w' = w2"
      by (auto simp: remove_cluster_def split: option.splits)
    with wait_gone_called [OF wg] f1 show ?thesis by simp
  qed
qed

lemma remove_cluster_failed:
  "remove_cluster k e c w = Some (Inl er, w') \<Longrightarrow> er = Exception ''Problem removing test cluster''"
  by (auto simp: remove_cluster_def split: prod.splits if_splits option.splits)

lemma rm_ip_addr_called:
  assumes "platform_of c w = Some pl" and "rm_ip_addr e c iface ip w = (r, w')"
  shows "called w' = called w @ [p_rm_cmd pl iface ip] \<and> sys_platform w' = sys_platform w
       \<and> (r = Inr () \<or> r = Inl (Exception ''Failed to remove IP''))"
proof -
  let ?cmd = "p_rm_cmd pl iface ip"
  let ?w1 = "write_stderr (''Running: '' @ ?cmd @ nl) w"
  obtain code w2 where sc: "subprocess_call e ?cmd None None ?w1 = (code, w2)"
    by (cases "subprocess_call e ?cmd None None ?w1")
  from subprocess_call_called [OF sc]
  have f: "called w2 = called w @ [?cmd] \<and> sys_platform w2 = sys_platform w"
    by (simp add: write_stderr_def)
  from assms sc have "w' = w2 \<and> (r = Inr () \<or> r = Inl (Exception ''Failed to remove IP''))"
    by (auto simp: rm_ip_addr_def p_rm_ip_addr_def Let_def split: if_splits)
  with f show ?thesis by simp
qed

lemma teardown_loop_called:
  assumes "platform_of c w = Some pl" and "teardown_loop e c xs w = (r, w')"
  shows "\<exists>j \<le> length xs. called w' = called w @ map (removal pl c) (take j xs)
           \<and> (r = Inr () \<longrightarrow> j = length xs)
           \<and> (r \<noteq> Inr () \<longrightarrow> 0 < j \<and> r = Inl (Exception ''Failed to remove IP''))"
  using assms
proof (induction xs arbitrary: w)
  case Nil
  then show ?case by simp
next
  case (Cons x xs)
  have mk: "mkiface c w x = Inr (p_mkiface pl x)" using Cons.prems(1) by (simp add: mkiface_def)
  obtain r1 w1 where rm: "rm_ip_addr e c (p_mkiface pl x) (mkaddr c x) w = (r1, w1)"
    by (cases "rm_ip_addr e c (p_mkiface pl x) (mkaddr c x) w")
  from rm_ip_addr_called [OF Cons.prems(1) rm]
  have f1: "called w1 = called w @ [removal pl c x]" "sys_platform w1 = sys_platform w"
    and r1: "r1 = Inr () \<or> r1 = Inl (Exception ''Failed to remove IP'')"
    by (simp_all add: removal_def)
  from r1 show ?case
  proof
    assume ok: "r1 = Inr ()"
    have p1: "platform_of c w1 = Some pl" using Cons.prems(1) f1(2) by (simp add: platform_of_def)
    from Cons.prems(2) mk rm ok have "teardown_loop e c xs w1 = (r, w')" by simp
    from Cons.IH [OF p1 this] obtain j where j: "j \<le> length xs"
      "called w' = called w1 @ map (removal pl c) (take j xs)"
      "r = Inr () \<longrightarrow> j = length xs"
      "r \<noteq> Inr () \<longrightarrow> 0 < j \<and> r = Inl (Exception ''Failed to remove IP'')"
      by blast
    have "Suc j \<le> length (x # xs)" using j(1) by simp
    moreover have "called w' = called w @ map (removal pl c) (take (Suc j) (x # xs))"
      using j(2) f1(1) by simp
    moreover have "r = Inr () \<longrightarrow> Suc j = length (x # xs)" using j(3) by simp
    moreover have "r \<noteq> Inr () \<longrightarrow> 0 < Suc j \<and> r = Inl (Exception ''Failed to remove IP'')"
      using j(4) by simp
    ultimately show ?thesis by blast
  next
    assume bad: "r1 = Inl (Exception ''Failed to remove IP'')"
    from Cons.prems(2) mk rm bad have "r = Inl (Exception ''Failed to remove IP'')" "w' = w1"
      by simp_all
    then have "Suc 0 \<le> length (x # xs)
       \<and> called w' = called w @ map (removal pl c) (take (Suc 0) (x # xs))
       \<and> (r = Inr () \<longrightarrow> Suc 0 = length (x # xs))
       \<and> (r \<noteq> Inr () \<longrightarrow> 0 < Suc 0 \<and> r = Inl (Exception ''Failed to remove IP''))"
      using f1(1) by simp
    then show ?thesis by blast
  qed
qed


lemma platform_of_nodes [simp]: "platform_of (c\<lparr>nodes := n\<rparr>) w = platform_of c w"
  by (simp add: platform_of_def)

lemma mkiface_nodes [simp]: "mkiface (c\<lparr>nodes := n\<rparr>) w x = mkiface c w x"
  by (simp add: mkiface_def)

lemma mkaddr_nodes [simp]: "mkaddr (c\<lparr>nodes := n\<rparr>) x = mkaddr c x"
  by (simp add: mkaddr_def)

lemma rm_ip_addr_nodes [simp]:
  "rm_ip_addr e (c\<lparr>nodes := n\<rparr>) iface ip w = rm_ip_addr e c iface ip w"
  by (simp add: rm_ip_addr_def)

lemma teardown_loop_nodes [simp]:
  "teardown_loop e (c\<lparr>nodes := n\<rparr>) xs w = teardown_loop e c xs w"
  by (induction xs arbitrary: w) (simp_all split: sum.splits prod.splits)

lemma cmdline_matches_nodes [simp]:
  "cmdline_matches (c\<lparr>nodes := n\<rparr>) cl = cmdline_matches c cl"
  by (simp add: cmdline_matches_def)

lemma processes_loop_nodes [simp]:
  "processes_loop (c\<lparr>nodes := n\<rparr>) ps w = processes_loop c ps w"
  by (induction ps arbitrary: w) (simp_all split: prod.splits)

lemma cassandra_processes_nodes [simp]:
  "cassandra_processes (c\<lparr>nodes := n\<rparr>) w = cassandra_processes c w"
  by (simp add: cassandra_processes_def)

lemma wait_gone_nodes [simp]:
  "wait_gone k e (c\<lparr>nodes := n\<rparr>) w = wait_gone k e c w"
  by (induction k arbitrary: w) (simp_all split: prod.splits)

lemma remove_cmd_nodes [simp]: "remove_cmd (c\<lparr>nodes := n\<rparr>) = remove_cmd c"
  by (simp add: remove_cmd_def)

lemma removal_nodes [simp]: "removal pl (c\<lparr>nodes := n\<rparr>) = removal pl c"
  by (rule ext) (simp add: removal_def)

lemma stdout_of_nodes [simp]: "stdout_of (c\<lparr>nodes := n\<rparr>) = stdout_of c"
  by (simp add: stdout_of_def)

lemma stderr_of_nodes [simp]: "stderr_of (c\<lparr>nodes := n\<rparr>) = stderr_of c"
  by (simp add: stderr_of_def)

lemma remove_cluster_nodes [simp]:
  "remove_cluster k e (c\<lparr>nodes := n\<rparr>) w = remove_cluster k e c w"
  by (cases "subprocess_call e (remove_cmd c) (stdout_of c) (stderr_of c) w")
     (simp add: remove_cluster_def)

lemma teardown_loopbacks_nodes [simp]:
  "teardown_loopbacks e (c\<lparr>nodes := n\<rparr>) m w = teardown_loopbacks e c m w"
  by (simp add: teardown_loopbacks_def)

lemma teardown_body_nodes:
  "teardown_body k e (c\<lparr>nodes := n\<rparr>) w = teardown_body k e c w"
proof (cases "remove_cluster k e c w")
  case None
  then show ?thesis by (simp add: teardown_body_def)
next
  case (Some a)
  obtain r1 w1 where "a = (r1, w1)" by (cases a)
  with Some show ?thesis by (cases r1) (simp_all add: teardown_body_def)
qed

lemma range_py_NUM_NODES: "range_py NUM_NODES = [0, 1, 2]"
  by code_simp

text \<open>
  \<open>_teardown_loopbacks()\<close> with its default argument, written out command by command.
\<close>

lemma run_removal_frame:
  "run_removal e cmd w = (code, w1) \<Longrightarrow>
     called w1 = called w @ [cmd] \<and> sys_platform w1 = sys_platform w"
  by (auto simp: run_removal_def subprocess_call_def write_stderr_def split: prod.splits)

lemma rm_ip_addr_run:
  assumes "platform_of c w = Some pl" and "run_removal e (p_rm_cmd pl iface ip) w = (code, w1)"
  shows "rm_ip_addr e c iface ip w =
           (if code \<noteq> 0 then (Inl (Exception ''Failed to remove IP''), w1) else (Inr (), w1))"
  using assms by (simp add: rm_ip_addr_def p_rm_ip_addr_def run_removal_def Let_def)

lemma teardown_loop_step:
  assumes "platform_of c w = Some pl" and "run_removal e (removal pl c x) w = (code, w1)"
  shows "teardown_loop e c (x # xs) w =
           (if code \<noteq> 0 then (Inl (Exception ''Failed to remove IP''), w1)
            else teardown_loop e c xs w1)"
proof -
  have mk: "mkiface c w x = Inr (p_mkiface pl x)" using assms(1) by (simp add: mkiface_def)
  have rm: "rm_ip_addr e c (p_mkiface pl x) (mkaddr c x) w =
           (if code \<noteq> 0 then (Inl (Exception ''Failed to remove IP''), w1) else (Inr (), w1))"
    using assms by (intro rm_ip_addr_run) (simp_all add: removal_def)
  show ?thesis using mk rm by simp
qed

lemma teardown_loopbacks_three:
  assumes pl: "platform_of c w0 = Some pl"
      and s0: "run_removal e (removal pl c 0) w0 = (code0, w1)"
      and s1: "run_removal e (removal pl c 1) w1 = (code1, w2)"
      and s2: "run_removal e (removal pl c 2) w2 = (code2, w3)"
  shows "teardown_loopbacks e c NUM_NODES w0 =
           (if code0 \<noteq> 0 then (Inl (Exception ''Failed to remove IP''), w1)
            else if code1 \<noteq> 0 then (Inl (Exception ''Failed to remove IP''), w2)
            else if code2 \<noteq> 0 then (Inl (Exception ''Failed to remove IP''), w3)
            else (Inr (), w3))"
proof -
  have p1: "platform_of c w1 = Some pl"
    using pl run_removal_frame [OF s0] by (simp add: platform_of_def)
  have p2: "platform_of c w2 = Some pl"
    using p1 run_removal_frame [OF s1] by (simp add: platform_of_def)
  have "teardown_loopbacks e c NUM_NODES w0 = teardown_loop e c [0, 1, 2] w0"
    by (simp add: teardown_loopbacks_def range_py_NUM_NODES)
  also have "\<dots> = (if code0 \<noteq> 0 then (Inl (Exception ''Failed to remove IP''), w1)
            else teardown_loop e c [1, 2] w1)"
    by (rule teardown_loop_step [OF pl s0])
  also have "teardown_loop e c [1, 2] w1 =
           (if code1 \<noteq> 0 then (Inl (Exception ''Failed to remove IP''), w2)
            else teardown_loop e c [2] w2)"
    by (rule teardown_loop_step [OF p1 s1])
  also have "teardown_loop e c [2] w2 =
           (if code2 \<noteq> 0 then (Inl (Exception ''Failed to remove IP''), w3)
            else teardown_loop e c [] w3)"
    by (rule teardown_loop_step [OF p2 s2])
  finally show ?thesis by simp
qed

section \<open>The second pass of setup-loopbacks\<close>

text \<open>
  The verification loop never extends \<open>missing\<close>: it returns the list it was given,
  or raises at the first binding that is still missing.
\<close>

lemma setup_verify_loop_outcomes:
  "setup_verify_loop c lbs xs missing w = (r, w') \<Longrightarrow>
     r = Inr missing \<or> r = Inl (NameError ''a'') \<or> (\<exists>s. r = Inl (AttributeError s))"
proof (induction xs arbitrary: w)
  case Nil
  then show ?case by simp
next
  case (Cons x xs)
  then show ?case
    by (auto simp: Let_def mkiface_def split: sum.splits if_splits option.splits)
qed

section \<open>Cluster creation after a nonzero exit\<close>

text \<open>
  With a name set and a \<open>ccm create\<close> that exits nonzero: when both captured outputs
  are well-formed UTF-8 they are written out and \<open>pytest.exit(ret)\<close> is called;
  when one is not, decoding it raises \<open>UnicodeDecodeError\<close>.
\<close>

lemma create_cluster_nonzero_exit:
  assumes named: "name c \<noteq> []"
      and exited: "popen e (create_cmd c) (os w) = (Exited out err ret, h)"
      and nonzero: "ret \<noteq> 0"
  shows "(\<forall>out_text err_text. decode out = Inr out_text \<and> decode err = Inr err_text \<longrightarrow>
            create_cluster e c w =
              (Inl (PytestExit ret),
               w\<lparr>os := h, spawned := spawned w @ [create_cmd c],
                  stdout_w := stdout_w w @ [out_text],
                  stderr_w := stderr_w w @ [err_text]\<rparr>))
       \<and> (\<not> utf8_valid out \<or> \<not> utf8_valid err \<longrightarrow>
            fst (create_cluster e c w) = Inl UnicodeDecodeError)"
proof -
  have sp: "subprocess_popen e (create_cmd c) w =
              (Exited out err ret, w\<lparr>os := h, spawned := spawned w @ [create_cmd c]\<rparr>)"
    using exited by (simp add: subprocess_popen_def)
  have ok: "create_cluster e c w =
              (Inl (PytestExit ret),
               w\<lparr>os := h, spawned := spawned w @ [create_cmd c],
                  stdout_w := stdout_w w @ [out_text],
                  stderr_w := stderr_w w @ [err_text]\<rparr>)"
    if "decode out = Inr out_text" and "decode err = Inr err_text" for out_text err_text
    using named nonzero sp that
    by (simp add: create_cluster_def write_stdout_def write_stderr_def)
  have bad: "fst (create_cluster e c w) = Inl UnicodeDecodeError"
    if "\<not> utf8_valid out \<or> \<not> utf8_valid err"
    using named nonzero sp that
    by (auto simp: create_cluster_def decode_def Let_def)
  show ?thesis using ok bad by blast
qed

section \<open>Verified properties\<close>

text \<open>
  C3. For every command line and cluster name, \<open>_cmdline_matches\<close> answers \<open>True\<close>
  exactly when the daemon's main class is one of the arguments and some argument
  contains the cluster name as a substring.
\<close>

theorem cmdline_matches_iff:
  "cmdline_matches c cmdline \<longleftrightarrow>
     (daemon_class \<in> set cmdline \<and> (\<exists>arg \<in> set cmdline. \<exists>pre suf. arg = pre @ name c @ suf))"
  by (simp add: cmdline_matches_def matches_loop_iff)

theorem cmdline_matches_iff_witness:
  "cmdline_matches (CCMCluster_default\<lparr>name := ''t1''\<rparr>) [daemon_class, ''/tmp/t1/node1'']
   \<and> \<not> cmdline_matches (CCMCluster_default\<lparr>name := ''t1''\<rparr>) [''/tmp/t1/node1'']"
proof -
  let ?c = "CCMCluster_default\<lparr>name := ''t1''\<rparr>"
  have d: "daemon_class \<in> set [daemon_class, ''/tmp/t1/node1'']" by simp
  have sub: "''/tmp/t1/node1'' = ''/tmp/'' @ name ?c @ ''/node1''" by simp
  have ex: "\<exists>arg \<in> set [daemon_class, ''/tmp/t1/node1'']. \<exists>pre suf. arg = pre @ name ?c @ suf"
  proof (intro bexI exI)
    show "''/tmp/t1/node1'' = ''/tmp/'' @ name ?c @ ''/node1''" by (rule sub)
    show "''/tmp/t1/node1'' \<in> set [daemon_class, ''/tmp/t1/node1'']" by simp
  qed
  have a: "cmdline_matches ?c [daemon_class, ''/tmp/t1/node1'']"
    by (rule cmdline_matches_iff [THEN iffD2, OF conjI [OF d ex]])
  have nd: "daemon_class \<notin> set [''/tmp/t1/node1'']" by (simp add: daemon_class_def)
  have b: "\<not> cmdline_matches ?c [''/tmp/t1/node1'']"
    using cmdline_matches_iff [of ?c "[''/tmp/t1/node1'']"] nd by blast
  show ?thesis using a b by (rule conjI)
qed

text \<open>
  C5. For a node count of at least 1 and a node index \<open>i\<close> with \<open>0 \<le> i < nodes\<close>, the
  address generated for node \<open>i\<close> (by \<open>_mkaddr\<close>, and so the \<open>i\<close>-th address of the hosts
  list) is \<open>ip_prefix\<close> followed by the decimal representation of \<open>i + 1\<close>.
\<close>

theorem mkaddr_prefix_decimal:
  assumes "1 \<le> nodes c" and "0 \<le> i" and "i < nodes c"
  shows "mkaddr c i = ip_prefix c @ str_int (i + 1)
       \<and> is_decimal_of (str_int (i + 1)) (nat (i + 1))
       \<and> map (mkaddr c) (range_py (nodes c)) ! nat i = mkaddr c i"
proof -
  have pos: "0 < nat (i + 1)" using assms(2) by simp
  have s: "str_int (i + 1) = str_nat (nat (i + 1))" using assms(2) by (simp add: str_int_def)
  have d: "is_decimal_of (str_int (i + 1)) (nat (i + 1))"
    unfolding s using pos by (rule str_nat_decimal)
  have len: "nat i < length (range_py (nodes c))" using assms by (simp add: range_py_length)
  have n: "map (mkaddr c) (range_py (nodes c)) ! nat i = mkaddr c i"
    using len assms by (simp add: range_py_nth)
  show ?thesis using d n by (simp add: mkaddr_def)
qed

theorem mkaddr_prefix_decimal_witness:
  "(1::int) \<le> nodes CCMCluster_default \<and> (0::int) \<le> 2 \<and> 2 < nodes CCMCluster_default
   \<and> mkaddr CCMCluster_default 2 = ''127.0.5.3''
   \<and> is_decimal_of ''3'' 3
   \<and> map (mkaddr CCMCluster_default) (range_py (nodes CCMCluster_default)) ! nat 2 = ''127.0.5.3''"
proof -
  have n: "nodes CCMCluster_default = 3" "ip_prefix CCMCluster_default = ''127.0.5.''"
    by (simp_all add: CCMCluster_default_def NUM_NODES_def IP_PREFIX_def)
  have s: "str_int 3 = ''3''" by code_simp
  have h: "(1::int) \<le> nodes CCMCluster_default" "(0::int) \<le> 2" "2 < nodes CCMCluster_default"
    by (simp_all add: n)
  show ?thesis
    using mkaddr_prefix_decimal [OF h] h by (simp add: n s)
qed


text \<open>
  C9. \<open>_create_cluster\<close> on a cluster whose name is empty raises before any external
  command is run: the world, and with it the trace of spawned commands, is unchanged.
\<close>

theorem create_cluster_requires_name:
  "name c = [] \<Longrightarrow>
     create_cluster e c w = (Inl (Exception ''Set name before calling create cluster''), w)"
  by (simp add: create_cluster_def)

theorem create_cluster_requires_name_witness:
  "name CCMCluster_default = []
   \<and> create_cluster env_quiet CCMCluster_default world_bare
       = (Inl (Exception ''Set name before calling create cluster''), world_bare)"
proof -
  have h: "name CCMCluster_default = []" by (simp add: CCMCluster_default_def)
  show ?thesis using create_cluster_requires_name [OF h, of env_quiet world_bare] h by simp
qed


text \<open>
  C1. Two calls of \<open>setup\<close> in sequence run cluster creation at most once: over both
  calls at most one command is given to \<open>Popen\<close>, whatever the first call did; and
  when the first call returns, the flag is set and the second call returns \<open>True\<close>
  at once, leaving the cluster object and the world as they were (no state check, no
  creation).
\<close>

theorem setup_twice_creates_once:
  assumes first: "ccm_setup e c args w = (r1, c1, w1)"
      and second: "ccm_setup e c1 args2 w1 = (r2, c2, w2)"
  shows "(spawned w2 = spawned w \<or> (\<exists>cmd. spawned w2 = spawned w @ [cmd]))
       \<and> ((\<exists>v. r1 = Inr v) \<longrightarrow> initialized c1 \<and> r2 = Inr (Some True) \<and> c2 = c1 \<and> w2 = w1)"
proof -
  from setup_outcomes [OF first]
  consider (failed) "\<not> initialized c1" "spawned w1 = spawned w" "\<exists>er. r1 = Inl er"
    | (marked) "initialized c1"
        "spawned w1 = spawned w \<or> spawned w1 = spawned w @ [create_cmd c1]"
    by blast
  then show ?thesis
  proof cases
    case failed
    from setup_outcomes [OF second] failed(2)
    have "spawned w2 = spawned w \<or> (\<exists>cmd. spawned w2 = spawned w @ [cmd])" by auto
    with failed(3) show ?thesis by auto
  next
    case marked
    from marked(1) second have "r2 = Inr (Some True)" "c2 = c1" "w2 = w1"
      by (simp_all add: setup_initialized_noop)
    with marked show ?thesis by auto
  qed
qed

theorem setup_twice_creates_once_witness:
  "ccm_setup env_quiet CCMCluster_default [''t1''] world_ready
     = (Inr None, CCMCluster_default\<lparr>name := ''t1'', initialized := True\<rparr>,
        world_ready\<lparr>spawned := [create_cmd (CCMCluster_default\<lparr>name := ''t1''\<rparr>)]\<rparr>)
   \<and> ccm_setup env_quiet (CCMCluster_default\<lparr>name := ''t1'', initialized := True\<rparr>) []
        (world_ready\<lparr>spawned := [create_cmd (CCMCluster_default\<lparr>name := ''t1''\<rparr>)]\<rparr>)
     = (Inr (Some True), CCMCluster_default\<lparr>name := ''t1'', initialized := True\<rparr>,
        world_ready\<lparr>spawned := [create_cmd (CCMCluster_default\<lparr>name := ''t1''\<rparr>)]\<rparr>)
   \<and> initialized (CCMCluster_default\<lparr>name := ''t1'', initialized := True\<rparr>)"
proof -
  let ?c1 = "CCMCluster_default\<lparr>name := ''t1'', initialized := True\<rparr>"
  let ?w1 = "world_ready\<lparr>spawned := [create_cmd (CCMCluster_default\<lparr>name := ''t1''\<rparr>)]\<rparr>"
  obtain r2 c2 w2 where second: "ccm_setup env_quiet ?c1 [] ?w1 = (r2, c2, w2)"
    by (cases "ccm_setup env_quiet ?c1 [] ?w1")
  have first: "ccm_setup env_quiet CCMCluster_default [''t1''] world_ready = (Inr None, ?c1, ?w1)"
    by code_simp
  from setup_twice_creates_once [OF first second]
  have "initialized ?c1 \<and> r2 = Inr (Some True) \<and> c2 = ?c1 \<and> w2 = ?w1" by blast
  with first second show ?thesis by simp
qed

text \<open>
  C7. In a \<open>setup\<close> on a cluster not yet initialized whose state check passes, the flag
  is set whatever \<open>_create_cluster\<close> does: any error it raises is the outcome of
  \<open>setup\<close>, the flag is \<open>True\<close> afterwards, and every later \<open>setup\<close> is a no-op.
\<close>

theorem setup_marks_initialized:
  assumes fresh: "\<not> initialized c"
      and checked: "check_state e (set_name_arg c args) w = (Inr u, w1)"
      and run: "ccm_setup e c args w = (r, c2, w2)"
  shows "initialized c2
       \<and> (\<forall>args' w'. ccm_setup e c2 args' w' = (Inr (Some True), c2, w'))
       \<and> (\<forall>er. fst (create_cluster e (set_name_arg c args) w1) = Inl er \<longrightarrow> r = Inl er)"
proof -
  obtain r3 w3 where cc: "create_cluster e (set_name_arg c args) w1 = (r3, w3)"
    by (cases "create_cluster e (set_name_arg c args) w1")
  from fresh checked run cc have c2: "c2 = (set_name_arg c args)\<lparr>initialized := True\<rparr>"
    by (auto simp: ccm_setup_def Let_def split: sum.splits)
  then have i: "initialized c2" by simp
  from fresh checked run cc have "\<forall>er. r3 = Inl er \<longrightarrow> r = Inl er"
    by (auto simp: ccm_setup_def Let_def split: sum.splits)
  with i cc show ?thesis by (simp add: setup_initialized_noop)
qed

theorem setup_marks_initialized_witness:
  "\<not> initialized CCMCluster_default
   \<and> check_state env_quiet (set_name_arg CCMCluster_default []) world_ready = (Inr (), world_ready)
   \<and> ccm_setup env_quiet CCMCluster_default [] world_ready
       = (Inl (Exception ''Set name before calling create cluster''),
          CCMCluster_default\<lparr>initialized := True\<rparr>, world_ready)
   \<and> initialized (CCMCluster_default\<lparr>initialized := True\<rparr>)
   \<and> ccm_setup env_quiet (CCMCluster_default\<lparr>initialized := True\<rparr>) [''t1''] world_bare
       = (Inr (Some True), CCMCluster_default\<lparr>initialized := True\<rparr>, world_bare)"
proof -
  have fresh: "\<not> initialized CCMCluster_default" by (simp add: CCMCluster_default_def)
  have checked: "check_state env_quiet (set_name_arg CCMCluster_default []) world_ready
                   = (Inr (), world_ready)"
    by code_simp
  have run: "ccm_setup env_quiet CCMCluster_default [] world_ready
       = (Inl (Exception ''Set name before calling create cluster''),
          CCMCluster_default\<lparr>initialized := True\<rparr>, world_ready)"
    by code_simp
  from setup_marks_initialized [OF fresh checked run] fresh checked run
  show ?thesis by blast
qed

text \<open>
  C8. A \<open>teardown\<close> of an initialized cluster that finishes, with or without an error,
  leaves the cluster object as it was, the flag still \<open>True\<close>; every later \<open>setup\<close>
  returns \<open>True\<close> at once and changes nothing.
\<close>

theorem teardown_keeps_initialized:
  assumes init: "initialized c"
      and run: "teardown k e c w = Some (r, c1, w1)"
  shows "initialized c1 \<and> c1 = c
       \<and> (\<forall>args w'. ccm_setup e c1 args w' = (Inr (Some True), c1, w'))"
proof -
  from init run have "c1 = c\<lparr>initialized := True\<rparr>"
    by (auto simp: teardown_def Let_def split: option.splits prod.splits sum.splits)
  with init have "c1 = c" by (simp add: initialized_update_same)
  with init show ?thesis by (simp add: setup_initialized_noop)
qed

theorem teardown_keeps_initialized_witness:
  "initialized (CCMCluster_default\<lparr>name := ''t1'', initialized := True\<rparr>)
   \<and> teardown 1 env_quiet (CCMCluster_default\<lparr>name := ''t1'', initialized := True\<rparr>) world_ready
       = Some (Inr None, CCMCluster_default\<lparr>name := ''t1'', initialized := True\<rparr>,
               world_ready\<lparr>called := [''ccm remove t1'']\<rparr>)
   \<and> ccm_setup env_quiet (CCMCluster_default\<lparr>name := ''t1'', initialized := True\<rparr>) [''t2'']
        (world_ready\<lparr>called := [''ccm remove t1'']\<rparr>)
       = (Inr (Some True), CCMCluster_default\<lparr>name := ''t1'', initialized := True\<rparr>,
          world_ready\<lparr>called := [''ccm remove t1'']\<rparr>)"
proof -
  let ?c = "CCMCluster_default\<lparr>name := ''t1'', initialized := True\<rparr>"
  have init: "initialized ?c" by simp
  have run: "teardown 1 env_quiet ?c world_ready
       = Some (Inr None, ?c, world_ready\<lparr>called := [''ccm remove t1'']\<rparr>)"
    by code_simp
  from teardown_keeps_initialized [OF init run] init run
  show ?thesis by blast
qed


text \<open>
  C6. On a host whose bindings \<open>lbs\<close> can be read and whose platform is known:
  if the binding of every node index in \<open>[0, nodes)\<close> is there, \<open>_check_loopbacks\<close>
  returns and changes nothing; otherwise it writes one \<open>Ip check failed\<close> line per
  missing index, the header, and one add-address command per missing index, in
  increasing order of the index, and ends the test run through \<open>pytest.exit(1)\<close>,
  not through an ordinary exception.
\<close>

theorem check_loopbacks_outcome:
  assumes "platform_of c w = Some pl" and "loopbacks w = Inr lbs"
  shows "check_loopbacks c w =
           (if missing_nodes pl c lbs = [] then (Inr (), w)
            else (Inl (PytestExit 1),
                  w\<lparr>stderr_w := stderr_w w
                       @ map ip_check_failed (missing_nodes pl c lbs)
                       @ [missing_header]
                       @ map (\<lambda>i. tab @ remediation pl c i @ nl) (missing_nodes pl c lbs)\<rparr>))
       \<and> (missing_nodes pl c lbs = [] \<longleftrightarrow>
            (\<forall>i. 0 \<le> i \<and> i < nodes c \<longrightarrow> required_binding pl c i \<in> set lbs))"
proof -
  have loop: "check_loop c lbs (range_py (nodes c)) [] w =
           (Inr (map (remediation pl c) (missing_nodes pl c lbs)),
            w\<lparr>stderr_w := stderr_w w @ map ip_check_failed (missing_nodes pl c lbs)\<rparr>)"
    using check_loop_result [OF assms(1), of lbs "range_py (nodes c)" "[]"]
    by (simp add: missing_nodes_def)
  have "check_loopbacks c w =
           (if missing_nodes pl c lbs = [] then (Inr (), w)
            else (Inl (PytestExit 1),
                  w\<lparr>stderr_w := stderr_w w
                       @ map ip_check_failed (missing_nodes pl c lbs)
                       @ [missing_header]
                       @ map (\<lambda>i. tab @ remediation pl c i @ nl) (missing_nodes pl c lbs)\<rparr>))"
    using assms(2) loop
    by (simp add: check_loopbacks_def fold_write_stderr write_stderr_def comp_def)
  then show ?thesis using missing_nodes_empty by blast
qed


theorem check_loopbacks_outcome_witness:
  "platform_of CCMCluster_default world_bare = Some (CCMPlatformLinux ''lo:auth_test'')
   \<and> loopbacks world_bare = Inr [(''lo'', ''127.0.0.1'')]
   \<and> missing_nodes (CCMPlatformLinux ''lo:auth_test'') CCMCluster_default [(''lo'', ''127.0.0.1'')]
       = [0, 1, 2]
   \<and> check_loopbacks CCMCluster_default world_bare =
       (Inl (PytestExit 1),
        world_bare\<lparr>stderr_w :=
          [ip_check_failed 0, ip_check_failed 1, ip_check_failed 2, missing_header,
           tab @ ''sudo ifconfig lo:auth_test0 127.0.5.1 netmask 255.0.0.0 up'' @ nl,
           tab @ ''sudo ifconfig lo:auth_test1 127.0.5.2 netmask 255.0.0.0 up'' @ nl,
           tab @ ''sudo ifconfig lo:auth_test2 127.0.5.3 netmask 255.0.0.0 up'' @ nl]\<rparr>)
   \<and> platform_of CCMCluster_default world_ready = Some (CCMPlatformLinux ''lo:auth_test'')
   \<and> check_loopbacks CCMCluster_default world_ready = (Inr (), world_ready)"
proof -
  let ?pl = "CCMPlatformLinux ''lo:auth_test''"
  have p1: "platform_of CCMCluster_default world_bare = Some ?pl" by code_simp
  have l1: "loopbacks world_bare = Inr [(''lo'', ''127.0.0.1'')]" by code_simp
  have m1: "missing_nodes ?pl CCMCluster_default [(''lo'', ''127.0.0.1'')] = [0, 1, 2]"
    by code_simp
  have r1: "map (\<lambda>i. tab @ remediation ?pl CCMCluster_default i @ nl) [0, 1, 2] =
          [tab @ ''sudo ifconfig lo:auth_test0 127.0.5.1 netmask 255.0.0.0 up'' @ nl,
           tab @ ''sudo ifconfig lo:auth_test1 127.0.5.2 netmask 255.0.0.0 up'' @ nl,
           tab @ ''sudo ifconfig lo:auth_test2 127.0.5.3 netmask 255.0.0.0 up'' @ nl]"
    by code_simp
  have s1: "stderr_w world_bare = []" by (simp add: world_bare_def)
  have p2: "platform_of CCMCluster_default world_ready = Some ?pl" by code_simp
  have l2: "loopbacks world_ready =
     Inr [(''lo'', ''127.0.0.1''), (''lo:auth_test0'', ''127.0.5.1''),
          (''lo:auth_test1'', ''127.0.5.2''), (''lo:auth_test2'', ''127.0.5.3'')]"
    by (rule loopbacks_ready)
  have m2: "missing_nodes ?pl CCMCluster_default
     [(''lo'', ''127.0.0.1''), (''lo:auth_test0'', ''127.0.5.1''),
          (''lo:auth_test1'', ''127.0.5.2''), (''lo:auth_test2'', ''127.0.5.3'')] = []"
    by code_simp
  have a: "check_loopbacks CCMCluster_default world_bare =
       (Inl (PytestExit 1),
        world_bare\<lparr>stderr_w :=
          [ip_check_failed 0, ip_check_failed 1, ip_check_failed 2, missing_header,
           tab @ ''sudo ifconfig lo:auth_test0 127.0.5.1 netmask 255.0.0.0 up'' @ nl,
           tab @ ''sudo ifconfig lo:auth_test1 127.0.5.2 netmask 255.0.0.0 up'' @ nl,
           tab @ ''sudo ifconfig lo:auth_test2 127.0.5.3 netmask 255.0.0.0 up'' @ nl]\<rparr>)"
    using check_loopbacks_outcome [OF p1 l1, THEN conjunct1]
    unfolding m1 r1 s1 by simp
  have b: "check_loopbacks CCMCluster_default world_ready = (Inr (), world_ready)"
    using check_loopbacks_outcome [OF p2 l2, THEN conjunct1]
    unfolding m2 by simp
  show ?thesis using p1 l1 m1 a p2 b by blast
qed

text \<open>
  C4. \<open>ccm create\<close> exits with code 1 after printing the single byte \<open>0xFF\<close>:
  \<open>_create_cluster\<close> raises \<open>UnicodeDecodeError\<close> at \<open>stdout.decode()\<close>, writes
  nothing to \<open>sys.stdout\<close> or \<open>sys.stderr\<close> and does not reach \<open>pytest.exit\<close>, where
  the claim has the captured output emitted and the test run ended with exit code 1.
\<close>

theorem create_cluster_garbled_output:
  "name (CCMCluster_default\<lparr>name := ''t1''\<rparr>) \<noteq> []
   \<and> popen env_create_garbled (create_cmd (CCMCluster_default\<lparr>name := ''t1''\<rparr>)) (os world_ready)
       = (Exited [0xFF] [] 1, os world_ready)
   \<and> (1::int) \<noteq> 0
   \<and> create_cluster env_create_garbled (CCMCluster_default\<lparr>name := ''t1''\<rparr>) world_ready =
       (Inl UnicodeDecodeError,
        world_ready\<lparr>spawned := [create_cmd (CCMCluster_default\<lparr>name := ''t1''\<rparr>)]\<rparr>)
   \<and> fst (create_cluster env_create_garbled (CCMCluster_default\<lparr>name := ''t1''\<rparr>) world_ready)
       \<noteq> Inl (PytestExit 1)"
proof -
  let ?c = "CCMCluster_default\<lparr>name := ''t1''\<rparr>"
  have run: "create_cluster env_create_garbled ?c world_ready =
       (Inl UnicodeDecodeError, world_ready\<lparr>spawned := [create_cmd ?c]\<rparr>)"
    by code_simp
  have exited: "popen env_create_garbled (create_cmd ?c) (os world_ready)
       = (Exited [0xFF] [] 1, os world_ready)"
    by (simp add: env_create_garbled_def)
  show ?thesis using run exited by simp
qed

text \<open>
  C2. One node, \<open>manage_interfaces\<close> set, and an \<open>ifconfig\<close> that exits 0 without
  adding the binding: the second pass of \<open>_setup_loopbacks\<close> finds the binding still
  missing and raises \<open>NameError\<close> at \<open>missing.append(a)\<close>; no list of missing bindings
  is collected or reported.
\<close>

theorem setup_loopbacks_still_missing:
  "setup_loopbacks env_quiet (CCMCluster_default\<lparr>manage_interfaces := True, nodes := 1\<rparr>) world_bare =
     (Inl (NameError ''a''),
      world_bare\<lparr>stderr_w :=
          [ip_check_failed 0, ''Add ip address to loopback: 0'' @ nl,
           ''Running: sudo ifconfig lo:auth_test0 127.0.5.1 netmask 255.0.0.0 up'' @ nl,
           ip_check_failed 0],
        called := [''sudo ifconfig lo:auth_test0 127.0.5.1 netmask 255.0.0.0 up'']\<rparr>)"
  by code_simp

text \<open>
  C10 (as amended). \<open>teardown\<close> calls \<open>_teardown_loopbacks\<close> without argument, so the
  node count used is \<open>NUM_NODES = 3\<close> and not \<open>self.nodes\<close>. On an initialized cluster
  \<open>teardown\<close> first removes the cluster. Only when \<open>manage_interfaces\<close> is set and that
  removal succeeded does it run the alias-removal commands of the node indices 0, 1, 2,
  in that order: the first one that exits nonzero raises
  \<open>Exception('Failed to remove IP')\<close> and the later ones are not run; all three are
  run when each exits 0. Otherwise no alias-removal command is run. The \<open>finally\<close>
  clause then runs the state check on the world so reached, and an error of the state
  check replaces that of the body. The removal commands do not depend on
  \<open>self.nodes\<close>.
\<close>

theorem teardown_removes_default_nodes:
  assumes init: "initialized c"
      and pl: "platform_of c w = Some pl"
      and removed: "remove_cluster k e c w = Some (r1, w0)"
      and s0: "run_removal e (removal pl c 0) w0 = (code0, w1)"
      and s1: "run_removal e (removal pl c 1) w1 = (code1, w2)"
      and s2: "run_removal e (removal pl c 2) w2 = (code2, w3)"
      and body: "(if manage_interfaces c \<and> r1 = Inr () then
                    (if code0 \<noteq> 0 then (Inl (Exception ''Failed to remove IP''), w1)
                     else if code1 \<noteq> 0 then (Inl (Exception ''Failed to remove IP''), w2)
                     else if code2 \<noteq> 0 then (Inl (Exception ''Failed to remove IP''), w3)
                     else (Inr (), w3))
                  else (r1, w0)) = (r2, wb)"
      and checked: "check_state e c wb = (r3, w4)"
  shows "teardown k e c w =
           Some (case r3 of Inl er \<Rightarrow> Inl er
                 | Inr u \<Rightarrow> (case r2 of Inl er \<Rightarrow> Inl er | Inr u2 \<Rightarrow> Inr None),
                 c, w4)
       \<and> called wb = called w @ [remove_cmd c] @
           (if manage_interfaces c \<and> r1 = Inr () then
              (if code0 \<noteq> 0 then [removal pl c 0]
               else if code1 \<noteq> 0 then [removal pl c 0, removal pl c 1]
               else [removal pl c 0, removal pl c 1, removal pl c 2])
            else [])
       \<and> (\<forall>n i. removal pl (c\<lparr>nodes := n\<rparr>) i = removal pl c i)"
proof -
  from remove_cluster_called [OF removed]
  have f0: "called w0 = called w @ [remove_cmd c]" "sys_platform w0 = sys_platform w"
    by simp_all
  have p0: "platform_of c w0 = Some pl" using pl f0(2) by (simp add: platform_of_def)
  have three: "teardown_loopbacks e c NUM_NODES w0 =
           (if code0 \<noteq> 0 then (Inl (Exception ''Failed to remove IP''), w1)
            else if code1 \<noteq> 0 then (Inl (Exception ''Failed to remove IP''), w2)
            else if code2 \<noteq> 0 then (Inl (Exception ''Failed to remove IP''), w3)
            else (Inr (), w3))"
    by (rule teardown_loopbacks_three [OF p0 s0 s1 s2])
  have tb: "teardown_body k e c w = Some (r2, wb)"
  proof (cases r1)
    case (Inl er)
    with body have "r2 = Inl er" and "wb = w0" by simp_all
    with removed Inl show ?thesis by (simp add: teardown_body_def)
  next
    case (Inr u)
    show ?thesis
    proof (cases "manage_interfaces c")
      case True
      with body Inr three have "teardown_loopbacks e c NUM_NODES w0 = (r2, wb)" by simp
      with removed Inr True show ?thesis by (simp add: teardown_body_def)
    next
      case False
      with body have "r2 = r1" and "wb = w0" by simp_all
      with removed Inr False show ?thesis by (simp add: teardown_body_def)
    qed
  qed
  have ci: "c\<lparr>initialized := True\<rparr> = c" using init by (rule initialized_update_same)
  have td: "teardown k e c w =
           Some (case r3 of Inl er \<Rightarrow> Inl er
                 | Inr u \<Rightarrow> (case r2 of Inl er \<Rightarrow> Inl er | Inr u2 \<Rightarrow> Inr None),
                 c, w4)"
    using init tb checked by (simp add: teardown_def ci split: sum.splits)
  have c1: "called w1 = called w0 @ [removal pl c 0]" using run_removal_frame [OF s0] by simp
  have c2: "called w2 = called w1 @ [removal pl c 1]" using run_removal_frame [OF s1] by simp
  have c3: "called w3 = called w2 @ [removal pl c 2]" using run_removal_frame [OF s2] by simp
  have tr: "called wb = called w @ [remove_cmd c] @
           (if manage_interfaces c \<and> r1 = Inr () then
              (if code0 \<noteq> 0 then [removal pl c 0]
               else if code1 \<noteq> 0 then [removal pl c 0, removal pl c 1]
               else [removal pl c 0, removal pl c 1, removal pl c 2])
            else [])"
    using body f0(1) c1 c2 c3 by (auto split: if_splits)
  show ?thesis using td tr by simp
qed


theorem teardown_removes_default_nodes_witness:
  "(teardown 1 env_quiet
     (CCMCluster_default\<lparr>name := ''t1'', nodes := 1, manage_interfaces := True,
                          initialized := True\<rparr>) world_ready
     = Some (Inr None,
         CCMCluster_default\<lparr>name := ''t1'', nodes := 1, manage_interfaces := True,
                             initialized := True\<rparr>,
         world_ready\<lparr>stderr_w :=
             [''Running: sudo ifconfig lo:auth_test0 down'' @ nl,
              ''Running: sudo ifconfig lo:auth_test1 down'' @ nl,
              ''Running: sudo ifconfig lo:auth_test2 down'' @ nl],
           called :=
             [''ccm remove t1'', ''sudo ifconfig lo:auth_test0 down'',
              ''sudo ifconfig lo:auth_test1 down'', ''sudo ifconfig lo:auth_test2 down'']\<rparr>))
   \<and> (teardown 1 env_no_alias1
        (CCMCluster_default\<lparr>name := ''t1'', nodes := 1, manage_interfaces := True,
                             initialized := True\<rparr>) world_one
     = Some (Inl (Exception ''Failed to remove IP''),
         CCMCluster_default\<lparr>name := ''t1'', nodes := 1, manage_interfaces := True,
                             initialized := True\<rparr>,
         world_one\<lparr>stderr_w := [''Running: sudo ifconfig lo:auth_test0 down'' @ nl,
                                 ''Running: sudo ifconfig lo:auth_test1 down'' @ nl],
                   called := [''ccm remove t1'', ''sudo ifconfig lo:auth_test0 down'',
                              ''sudo ifconfig lo:auth_test1 down'']\<rparr>))"
proof (rule conjI)
  show "teardown 1 env_quiet
     (CCMCluster_default\<lparr>name := ''t1'', nodes := 1, manage_interfaces := True,
                          initialized := True\<rparr>) world_ready
     = Some (Inr None,
         CCMCluster_default\<lparr>name := ''t1'', nodes := 1, manage_interfaces := True,
                             initialized := True\<rparr>,
         world_ready\<lparr>stderr_w :=
             [''Running: sudo ifconfig lo:auth_test0 down'' @ nl,
              ''Running: sudo ifconfig lo:auth_test1 down'' @ nl,
              ''Running: sudo ifconfig lo:auth_test2 down'' @ nl],
           called :=
             [''ccm remove t1'', ''sudo ifconfig lo:auth_test0 down'',
              ''sudo ifconfig lo:auth_test1 down'', ''sudo ifconfig lo:auth_test2 down'']\<rparr>)"
  proof -
    let ?c = "CCMCluster_default\<lparr>name := ''t1'', nodes := 1, manage_interfaces := True,
                                 initialized := True\<rparr>"
    let ?pl = "CCMPlatformLinux ''lo:auth_test''"
    let ?w0 = "world_ready\<lparr>called := [''ccm remove t1'']\<rparr>"
    let ?w1 = "world_ready\<lparr>stderr_w := [''Running: sudo ifconfig lo:auth_test0 down'' @ nl],
                 called := [''ccm remove t1'', ''sudo ifconfig lo:auth_test0 down'']\<rparr>"
    let ?w2 = "world_ready\<lparr>stderr_w := [''Running: sudo ifconfig lo:auth_test0 down'' @ nl,
                                         ''Running: sudo ifconfig lo:auth_test1 down'' @ nl],
                 called := [''ccm remove t1'', ''sudo ifconfig lo:auth_test0 down'',
                            ''sudo ifconfig lo:auth_test1 down'']\<rparr>"
    let ?w3 = "world_ready\<lparr>stderr_w := [''Running: sudo ifconfig lo:auth_test0 down'' @ nl,
                                         ''Running: sudo ifconfig lo:auth_test1 down'' @ nl,
                                         ''Running: sudo ifconfig lo:auth_test2 down'' @ nl],
                 called := [''ccm remove t1'', ''sudo ifconfig lo:auth_test0 down'',
                            ''sudo ifconfig lo:auth_test1 down'',
                            ''sudo ifconfig lo:auth_test2 down'']\<rparr>"
    have init: "initialized ?c" by simp
    have pl: "platform_of ?c world_ready = Some ?pl" by code_simp
    have removed: "remove_cluster 1 env_quiet ?c world_ready = Some (Inr (), ?w0)" by code_simp
    have s0: "run_removal env_quiet (removal ?pl ?c 0) ?w0 = (0, ?w1)" by code_simp
    have s1: "run_removal env_quiet (removal ?pl ?c 1) ?w1 = (0, ?w2)" by code_simp
    have s2: "run_removal env_quiet (removal ?pl ?c 2) ?w2 = (0, ?w3)" by code_simp
    have body: "(if manage_interfaces ?c \<and> (Inr () :: error + unit) = Inr () then
                      (if (0::int) \<noteq> 0 then (Inl (Exception ''Failed to remove IP''), ?w1)
                       else if (0::int) \<noteq> 0 then (Inl (Exception ''Failed to remove IP''), ?w2)
                       else if (0::int) \<noteq> 0 then (Inl (Exception ''Failed to remove IP''), ?w3)
                       else (Inr (), ?w3))
                    else (Inr (), ?w0)) = (Inr (), ?w3)"
      by simp
    have checked: "check_state env_quiet ?c ?w3 = (Inr (), ?w3)" by code_simp
    from teardown_removes_default_nodes [OF init pl removed s0 s1 s2 body checked]
    show ?thesis by simp
  qed
next
  show "teardown 1 env_no_alias1
        (CCMCluster_default\<lparr>name := ''t1'', nodes := 1, manage_interfaces := True,
                             initialized := True\<rparr>) world_one
     = Some (Inl (Exception ''Failed to remove IP''),
         CCMCluster_default\<lparr>name := ''t1'', nodes := 1, manage_interfaces := True,
                             initialized := True\<rparr>,
         world_one\<lparr>stderr_w := [''Running: sudo ifconfig lo:auth_test0 down'' @ nl,
                                 ''Running: sudo ifconfig lo:auth_test1 down'' @ nl],
                   called := [''ccm remove t1'', ''sudo ifconfig lo:auth_test0 down'',
                              ''sudo ifconfig lo:auth_test1 down'']\<rparr>)"
  proof -
    let ?c = "CCMCluster_default\<lparr>name := ''t1'', nodes := 1, manage_interfaces := True,
                                 initialized := True\<rparr>"
    let ?pl = "CCMPlatformLinux ''lo:auth_test''"
    let ?v0 = "world_one\<lparr>called := [''ccm remove t1'']\<rparr>"
    let ?v1 = "world_one\<lparr>stderr_w := [''Running: sudo ifconfig lo:auth_test0 down'' @ nl],
                 called := [''ccm remove t1'', ''sudo ifconfig lo:auth_test0 down'']\<rparr>"
    let ?v2 = "world_one\<lparr>stderr_w := [''Running: sudo ifconfig lo:auth_test0 down'' @ nl,
                                       ''Running: sudo ifconfig lo:auth_test1 down'' @ nl],
                 called := [''ccm remove t1'', ''sudo ifconfig lo:auth_test0 down'',
                            ''sudo ifconfig lo:auth_test1 down'']\<rparr>"
    let ?v3 = "world_one\<lparr>stderr_w := [''Running: sudo ifconfig lo:auth_test0 down'' @ nl,
                                       ''Running: sudo ifconfig lo:auth_test1 down'' @ nl,
                                       ''Running: sudo ifconfig lo:auth_test2 down'' @ nl],
                 called := [''ccm remove t1'', ''sudo ifconfig lo:auth_test0 down'',
                            ''sudo ifconfig lo:auth_test1 down'',
                            ''sudo ifconfig lo:auth_test2 down'']\<rparr>"
    have init: "initialized ?c" by simp
    have pl: "platform_of ?c world_one = Some ?pl" by code_simp
    have removed: "remove_cluster 1 env_no_alias1 ?c world_one = Some (Inr (), ?v0)" by code_simp
    have s0: "run_removal env_no_alias1 (removal ?pl ?c 0) ?v0 = (0, ?v1)" by code_simp
    have s1: "run_removal env_no_alias1 (removal ?pl ?c 1) ?v1 = (1, ?v2)" by code_simp
    have s2: "run_removal env_no_alias1 (removal ?pl ?c 2) ?v2 = (0, ?v3)" by code_simp
    have body: "(if manage_interfaces ?c \<and> (Inr () :: error + unit) = Inr () then
                      (if (0::int) \<noteq> 0 then (Inl (Exception ''Failed to remove IP''), ?v1)
                       else if (1::int) \<noteq> 0 then (Inl (Exception ''Failed to remove IP''), ?v2)
                       else if (0::int) \<noteq> 0 then (Inl (Exception ''Failed to remove IP''), ?v3)
                       else (Inr (), ?v3))
                    else (Inr (), ?v0)) = (Inl (Exception ''Failed to remove IP''), ?v2)"
      by simp
    have checked: "check_state env_no_alias1 ?c ?v2 = (Inr (), ?v2)" by code_simp
    from teardown_removes_default_nodes [OF init pl removed s0 s1 s2 body checked]
    show ?thesis by simp
  qed
qed

text \<open>
  C10 as stated fails. The module's cluster object (\<open>manage_interfaces\<close> unset)
  configured with 2 nodes: \<open>teardown\<close> runs \<open>ccm remove\<close> and no alias-removal command
  at all. A cluster with \<open>manage_interfaces\<close> set and 1 node, on a host that has no
  alias for node 1: \<open>teardown\<close> stops with an exception at the second removal
  command, and the alias of node 2 is never touched.
\<close>

theorem teardown_three_nodes_counterexample:
  "teardown 1 env_quiet (ccm_cluster\<lparr>name := ''t1'', nodes := 2, initialized := True\<rparr>) world_ready
     = Some (Inr None, ccm_cluster\<lparr>name := ''t1'', nodes := 2, initialized := True\<rparr>,
             world_ready\<lparr>called := [''ccm remove t1'']\<rparr>)
   \<and> teardown 1 env_no_alias1
        (CCMCluster_default\<lparr>name := ''t1'', nodes := 1, manage_interfaces := True,
                             initialized := True\<rparr>) world_one
     = Some (Inl (Exception ''Failed to remove IP''),
         CCMCluster_default\<lparr>name := ''t1'', nodes := 1, manage_interfaces := True,
                             initialized := True\<rparr>,
         world_one\<lparr>stderr_w := [''Running: sudo ifconfig lo:auth_test0 down'' @ nl,
                                 ''Running: sudo ifconfig lo:auth_test1 down'' @ nl],
                   called := [''ccm remove t1'', ''sudo ifconfig lo:auth_test0 down'',
                              ''sudo ifconfig lo:auth_test1 down'']\<rparr>)"
proof -
  have a: "teardown 1 env_quiet (ccm_cluster\<lparr>name := ''t1'', nodes := 2, initialized := True\<rparr>) world_ready
     = Some (Inr None, ccm_cluster\<lparr>name := ''t1'', nodes := 2, initialized := True\<rparr>,
             world_ready\<lparr>called := [''ccm remove t1'']\<rparr>)"
    by code_simp
  have b: "teardown 1 env_no_alias1
        (CCMCluster_default\<lparr>name := ''t1'', nodes := 1, manage_interfaces := True,
                             initialized := True\<rparr>) world_one
     = Some (Inl (Exception ''Failed to remove IP''),
         CCMCluster_default\<lparr>name := ''t1'', nodes := 1, manage_interfaces := True,
                             initialized := True\<rparr>,
         world_one\<lparr>stderr_w := [''Running: sudo ifconfig lo:auth_test0 down'' @ nl,
                                 ''Running: sudo ifconfig lo:auth_test1 down'' @ nl],
                   called := [''ccm remove t1'', ''sudo ifconfig lo:auth_test0 down'',
                              ''sudo ifconfig lo:auth_test1 down'']\<rparr>)"
    by code_simp
  show ?thesis using a b by (rule conjI)
qed


end
